theory Spec2Isabelle
  imports Main "HOL-Library.Sublist"
begin

section \<open>Python strings\<close>

text \<open>
  A Python \<open>str\<close> is a \<^typ>\<open>string\<close>; one \<^typ>\<open>char\<close> stands for one code point
  (below 256), so \<open>len\<close> is \<^const>\<open>length\<close>. The functions below are the methods of
  \<open>str\<close> that the tool calls, with the results the Python documentation gives them.
\<close>

text \<open>\<open>sub in s\<close>: \<open>sub\<close> occurs in \<open>s\<close> as a contiguous substring.\<close>

fun str_in :: "string \<Rightarrow> string \<Rightarrow> bool" where
  "str_in sub [] = (sub = [])"
| "str_in sub (c # cs) = (prefix sub (c # cs) \<or> str_in sub cs)"

text \<open>
  \<open>s.partition(sep)\<close> splits at the first occurrence of \<open>sep\<close> and returns
  \<open>(before, sep, after)\<close>, or \<open>(s, '', '')\<close> when \<open>sep\<close> does not occur. The separators
  of the tool are non-empty literals.
\<close>

fun str_partition :: "string \<Rightarrow> string \<Rightarrow> string \<times> string \<times> string" where
  "str_partition sep [] = ([], [], [])"
| "str_partition sep (c # cs) =
     (if prefix sep (c # cs) then ([], sep, drop (length sep) (c # cs))
      else (case str_partition sep cs of
              (a, m, b) \<Rightarrow> if m = [] then (c # cs, [], []) else (c # a, m, b)))"

text \<open>
  \<open>s.rpartition(sep)\<close> splits at the last occurrence of \<open>sep\<close>, and returns
  \<open>('', '', s)\<close> when \<open>sep\<close> does not occur.
\<close>

fun str_rpartition :: "string \<Rightarrow> string \<Rightarrow> string \<times> string \<times> string" where
  "str_rpartition sep [] = ([], [], [])"
| "str_rpartition sep (c # cs) =
     (case str_rpartition sep cs of
        (a, m, b) \<Rightarrow>
          if m \<noteq> [] then (c # a, m, b)
          else if prefix sep (c # cs) then ([], sep, drop (length sep) (c # cs))
          else ([], [], c # cs))"

text \<open>The three components of the tuple, \<open>t[0]\<close>, \<open>t[1]\<close> and \<open>t[2]\<close>.\<close>

definition part0 :: "string \<times> string \<times> string \<Rightarrow> string" where
  "part0 t = fst t"

definition part2 :: "string \<times> string \<times> string \<Rightarrow> string" where
  "part2 t = snd (snd t)"

text \<open>\<open>s.split(c)\<close> for a one-character separator; the result is never empty.\<close>

fun str_split :: "char \<Rightarrow> string \<Rightarrow> string list" where
  "str_split c [] = [[]]"
| "str_split c (x # xs) =
     (if x = c then [] # str_split c xs
      else (case str_split c xs of
              w # ws \<Rightarrow> (x # w) # ws
            | [] \<Rightarrow> [[x]]))"

text \<open>
  \<open>s.lower()\<close>, on the code points below 256: the ASCII capitals, and the capitals of
  Latin-1 (192 to 222 without the multiplication sign 215), move up by 32.
\<close>

definition chr_lower :: "char \<Rightarrow> char" where
  "chr_lower c =
     (let n = (of_char c :: nat)
      in if (65 \<le> n \<and> n \<le> 90) \<or> (192 \<le> n \<and> n \<le> 222 \<and> n \<noteq> 215)
         then char_of (n + 32) else c)"

definition str_lower :: "string \<Rightarrow> string" where
  "str_lower s = map chr_lower s"

text \<open>
  \<open>s.replace(old, new)\<close>: every occurrence of \<open>old\<close>, left to right and without
  overlap, becomes \<open>new\<close>; an empty \<open>old\<close> occurs before every character and at the
  end. The first argument of the helper counts the characters of an occurrence that
  are still to be skipped.
\<close>

fun replace_from :: "nat \<Rightarrow> string \<Rightarrow> string \<Rightarrow> string \<Rightarrow> string" where
  "replace_from n old new [] = []"
| "replace_from (Suc n) old new (c # cs) = replace_from n old new cs"
| "replace_from 0 old new (c # cs) =
     (if prefix old (c # cs) then new @ replace_from (length old - 1) old new cs
      else c # replace_from 0 old new cs)"

definition str_replace :: "string \<Rightarrow> string \<Rightarrow> string \<Rightarrow> string" where
  "str_replace old new s =
     (if old = [] then new @ concat (map (\<lambda>c. c # new) s) else replace_from 0 old new s)"

text \<open>
  An f-string field \<open>{v}\<close> prints \<open>None\<close> as the text \<open>None\<close>.
\<close>

definition fstr :: "string option \<Rightarrow> string" where
  "fstr v = (case v of None \<Rightarrow> ''None'' | Some s \<Rightarrow> s)"

section \<open>Exceptions\<close>

text \<open>
  The five exception classes of the tool with the fields that the properties below
  use, and the built-in exceptions that its code can raise without catching them by name.
\<close>

datatype error =
    FileNameError string
  | LoginError int
  | DataValidationError "string option" string
  | RecordNotFoundError
  | ArchivesSpaceError string int
  | RequestException
  | ValueError
  | KeyError
  | IndexError
  | TypeError
  | NameError
  | UnboundLocalError
  | FileNotFoundError

fun is_ArchivesSpaceError :: "error \<Rightarrow> bool" where
  "is_ArchivesSpaceError (ArchivesSpaceError u c) = True"
| "is_ArchivesSpaceError e = False"

fun is_DataValidationError :: "error \<Rightarrow> bool" where
  "is_DataValidationError (DataValidationError v c) = True"
| "is_DataValidationError e = False"

section \<open>Identifiers from the parent-record reference\<close>

text \<open>
  The row loop of \<open>main\<close> takes the identifier of the record from
  \<open>row['Parent Record']\<close> with \<open>rpartition("_")[2]\<close>: \<open>record_id_of\<close>. \<open>set_parent\<close> (after
  the rows, below) computes the same expression on the third cell of the first line.
\<close>

definition record_id_of :: "string \<Rightarrow> string" where
  "record_id_of parent_record = part2 (str_rpartition ''_'' parent_record)"

definition set_resource :: "string \<Rightarrow> string" where
  "set_resource parent_record =
     (if str_in ''/#'' parent_record
      then part2 (str_rpartition ''/'' (part0 (str_partition ''/#'' parent_record)))
      else part2 (str_rpartition ''/'' (part0 (str_partition ''#'' parent_record))))"

section \<open>The action chosen by the file name\<close>

datatype action = create_archival_object_fn | update_archival_object_fn

definition set_action_type :: "string \<Rightarrow> error + action" where
  "set_action_type input_file =
     (if str_in ''create'' (str_lower input_file) then Inr create_archival_object_fn
      else if str_in ''update'' (str_lower input_file) then Inr update_archival_object_fn
      else Inl (FileNameError input_file))"

section \<open>Rows of the spreadsheet\<close>

text \<open>
  \<open>csv.DictReader\<close> gives one dictionary per line, from the column names of
  \<open>set_fieldnames\<close> to the cells. A cell of a complete line is a \<open>str\<close>. The source
  compares \<open>Top Container\<close> and the three event types with \<open>None\<close> as well as with
  \<open>''\<close>, and it overwrites \<open>Top Container\<close> with the result of
  \<open>get_matched_containers\<close>, which is \<open>None\<close> when nothing matches: those fields are
  options. The last four fields are the columns that \<open>main\<close> adds before it writes
  the row; they are \<open>None\<close> as long as the key is absent, which \<open>csv.DictWriter\<close> writes
  as the same empty cell.
\<close>

record row =
  Repository_Name :: string
  Parent_Record :: string
  Title :: string
  Component_Unique_ID :: string
  Type_1 :: string
  Number_of_bytes :: string
  Container_Summary :: string
  Top_Container :: "string option"
  Event_Type_1 :: "string option"
  Outcome_1 :: string
  Begin_1 :: string
  Outcome_Note_1 :: string
  Event_Type_2 :: "string option"
  Outcome_2 :: string
  Begin_2 :: string
  Outcome_Note_2 :: string
  Event_Type_3 :: "string option"
  Outcome_3 :: string
  Begin_3 :: string
  Outcome_Note_3 :: string
  New_Component_URI :: "string option"
  Event_URI_1 :: "string option"
  Event_URI_2 :: "string option"
  Event_URI_3 :: "string option"

text \<open>
  \<open>set_parent\<close> receives the first data line as \<open>csv.reader\<close> gives it; its third cell is
  the \<open>Parent Record\<close> of the first row.
\<close>

definition set_parent :: "row \<Rightarrow> string" where
  "set_parent first_row = part2 (str_rpartition ''_'' (Parent_Record first_row))"

section \<open>Extents\<close>

text \<open>
  An extent is the dictionary that \<open>update_extents\<close> builds; \<open>container_summary\<close> is
  \<open>None\<close> when the key is absent.
\<close>

record extent =
  number :: string
  portion :: string
  extent_type :: string
  extent_jsonmodel_type :: string
  container_summary :: "string option"

definition first_extent :: "row \<Rightarrow> extent" where
  "first_extent r =
     \<lparr>number = ''1'', portion = ''whole'', extent_type = Type_1 r,
      extent_jsonmodel_type = ''extent'', container_summary = None\<rparr>"

definition second_extent :: "row \<Rightarrow> extent" where
  "second_extent r =
     (let e = \<lparr>number = str_replace '','' [] (Number_of_bytes r), portion = ''whole'',
               extent_type = ''bytes'', extent_jsonmodel_type = ''extent'',
               container_summary = None\<rparr>
      in if Container_Summary r \<noteq> []
         then e\<lparr>container_summary := Some (Container_Summary r)\<rparr>
         else e)"

definition update_extents :: "row \<Rightarrow> extent list" where
  "update_extents r =
     (let new_extent_list = [];
          new_extent_list =
            (if Type_1 r \<noteq> [] then new_extent_list @ [first_extent r] else new_extent_list);
          new_extent_list =
            (if Number_of_bytes r \<noteq> [] then new_extent_list @ [second_extent r]
             else new_extent_list)
      in new_extent_list)"

section \<open>Dates\<close>

subsection \<open>\<open>datetime.strptime\<close> and \<open>strftime\<close>\<close>

text \<open>
  \<open>check_dates\<close> parses with the formats \<open>%m/%d/%Y\<close>, \<open>%m/%d/%y\<close>, \<open>%Y/%m/%d\<close> and
  \<open>%m-%d-%y\<close>. The standard library turns a format into a regular expression, one
  group per directive,
  \<^item> \<open>%m\<close>: \<open>1[0-2]|0[1-9]|[1-9]\<close>
  \<^item> \<open>%d\<close>: \<open>3[0-1]|[1-2]\d|0[1-9]|[1-9]| [1-9]\<close>
  \<^item> \<open>%Y\<close>: \<open>\d\d\d\d\<close>
  \<^item> \<open>%y\<close>: \<open>\d\d\<close>

  matches it at the start of the text and raises \<open>ValueError\<close> when there is no match,
  when text is left over after the match, or when the fields are not a date of the
  calendar. A two-digit year up to 68 is in 2000, a later one in 1900.
\<close>

datatype directive = Dir_m | Dir_d | Dir_Y | Dir_y | Lit char

text \<open>The value of a character \<open>0\<close> to \<open>9\<close> (code points 48 to 57).\<close>

definition digit :: "char \<Rightarrow> nat option" where
  "digit c =
     (let n = (of_char c :: nat) in if 48 \<le> n \<and> n \<le> 57 then Some (n - 48) else None)"

text \<open>
  One alternative of a group: the characters of the text must satisfy the given tests
  in turn; the result is the number read (a space counts as nothing) and the rest.
\<close>

fun alt :: "(char \<Rightarrow> bool) list \<Rightarrow> nat \<Rightarrow> string \<Rightarrow> (nat \<times> string) list" where
  "alt [] acc s = [(acc, s)]"
| "alt (p # ps) acc [] = []"
| "alt (p # ps) acc (c # cs) =
     (if p c then alt ps (case digit c of Some d \<Rightarrow> 10 * acc + d | None \<Rightarrow> acc) cs
      else [])"

definition is_digit :: "char \<Rightarrow> bool" where
  "is_digit c = (digit c \<noteq> None)"

definition between :: "nat \<Rightarrow> nat \<Rightarrow> char \<Rightarrow> bool" where
  "between lo hi c = (case digit c of Some d \<Rightarrow> lo \<le> d \<and> d \<le> hi | None \<Rightarrow> False)"

text \<open>The matches of one directive at the start of a text, in the order the engine tries them.\<close>

fun alts :: "directive \<Rightarrow> string \<Rightarrow> (nat \<times> string) list" where
  "alts Dir_m s =
     alt [between 1 1, between 0 2] 0 s @ alt [between 0 0, between 1 9] 0 s
     @ alt [between 1 9] 0 s"
| "alts Dir_d s =
     alt [between 3 3, between 0 1] 0 s @ alt [between 1 2, is_digit] 0 s
     @ alt [between 0 0, between 1 9] 0 s @ alt [between 1 9] 0 s
     @ alt [(\<lambda>c. c = CHR '' ''), between 1 9] 0 s"
| "alts Dir_Y s = alt [is_digit, is_digit, is_digit, is_digit] 0 s"
| "alts Dir_y s = alt [is_digit, is_digit] 0 s"
| "alts (Lit c) s = alt [(\<lambda>x. x = c)] 0 s"

text \<open>All matches of a format, first match first, each with the fields read and the rest.\<close>

fun regex_match :: "directive list \<Rightarrow> string \<Rightarrow> ((directive \<times> nat) list \<times> string) list" where
  "regex_match [] s = [([], s)]"
| "regex_match (d # ds) s =
     concat (map (\<lambda>(v, rest). map (\<lambda>(fs, r). ((d, v) # fs, r)) (regex_match ds rest))
                 (alts d s))"

definition is_leap :: "nat \<Rightarrow> bool" where
  "is_leap y = (y mod 4 = 0 \<and> (if y mod 100 = 0 then y mod 400 = 0 else True))"

definition days_in_month :: "nat \<Rightarrow> nat \<Rightarrow> nat" where
  "days_in_month y m =
     (if m = 2 then (if is_leap y then 29 else 28)
      else if m = 4 \<or> m = 6 \<or> m = 9 \<or> m = 11 then 30 else 31)"

definition valid_date :: "nat \<Rightarrow> nat \<Rightarrow> nat \<Rightarrow> bool" where
  "valid_date y m d =
     (1 \<le> y \<and> y \<le> 9999 \<and> 1 \<le> m \<and> m \<le> 12 \<and> 1 \<le> d \<and> d \<le> days_in_month y m)"

definition strptime :: "string \<Rightarrow> directive list \<Rightarrow> error + (nat \<times> nat \<times> nat)" where
  "strptime data_string fmt =
     (case regex_match fmt data_string of
        [] \<Rightarrow> Inl ValueError
      | (found, rest) # _ \<Rightarrow>
          if rest \<noteq> [] then Inl ValueError
          else
            (let year = (case map_of found Dir_Y of
                           Some y \<Rightarrow> y
                         | None \<Rightarrow>
                             (case map_of found Dir_y of
                                Some y \<Rightarrow> if y \<le> 68 then y + 2000 else y + 1900
                              | None \<Rightarrow> 1900));
                 month = (case map_of found Dir_m of Some m \<Rightarrow> m | None \<Rightarrow> 1);
                 day = (case map_of found Dir_d of Some d \<Rightarrow> d | None \<Rightarrow> 1)
             in if valid_date year month day then Inr (year, month, day)
                else Inl ValueError))"

definition digit_chr :: "nat \<Rightarrow> char" where
  "digit_chr n = char_of (48 + n mod 10)"

text \<open>
  \<open>strftime('%Y-%m-%d')\<close>: the year as the C library prints it, in decimal without
  leading zeros (the year of a date is between 1 and 9999), then two digits of month
  and two of day.
\<close>

definition year_digits :: "nat \<Rightarrow> string" where
  "year_digits y =
     (if y < 10 then [digit_chr y]
      else if y < 100 then [digit_chr (y div 10), digit_chr y]
      else if y < 1000 then [digit_chr (y div 100), digit_chr (y div 10), digit_chr y]
      else [digit_chr (y div 1000), digit_chr (y div 100), digit_chr (y div 10), digit_chr y])"

definition strftime_Ymd :: "nat \<times> nat \<times> nat \<Rightarrow> string" where
  "strftime_Ymd t =
     (case t of (y, m, d) \<Rightarrow>
        year_digits y
        @ ''-'' @ [digit_chr (m div 10), digit_chr m]
        @ ''-'' @ [digit_chr (d div 10), digit_chr d])"

definition reformat :: "string \<Rightarrow> directive list \<Rightarrow> error + string option" where
  "reformat date_value fmt =
     (case strptime date_value fmt of
        Inl e \<Rightarrow> Inl e
      | Inr t \<Rightarrow> Inr (Some (strftime_Ymd t)))"

subsection \<open>\<open>check_dates\<close>\<close>

text \<open>
  The result is \<open>Inl\<close> of the exception raised, \<open>Inr (Some d)\<close> for a returned date and
  \<open>Inr None\<close> where the function ends without a \<open>return\<close>.
\<close>

definition check_dates :: "string \<Rightarrow> error + string option" where
  "check_dates date_value =
     (if CHR ''/'' \<in> set date_value then
        (let last_value = last (str_split CHR ''/'' date_value);
             first_value = hd (str_split CHR ''/'' date_value)
         in if length last_value = 4 then
              reformat date_value [Dir_m, Lit CHR ''/'', Dir_d, Lit CHR ''/'', Dir_Y]
            else if length last_value = 2 then
              (if length first_value \<noteq> 4 then
                 reformat date_value [Dir_m, Lit CHR ''/'', Dir_d, Lit CHR ''/'', Dir_y]
               else
                 reformat date_value [Dir_Y, Lit CHR ''/'', Dir_m, Lit CHR ''/'', Dir_d])
            else Inl (DataValidationError (Some date_value) ''YYYY-MM-DD''))
      else if CHR ''-'' \<in> set date_value \<and> CHR ''/'' \<notin> set date_value then
        (if length date_value < 10 then
           reformat date_value [Dir_m, Lit CHR ''-'', Dir_d, Lit CHR ''-'', Dir_y]
         else Inr None)
      else Inl (DataValidationError (Some date_value) ''YYYY-MM-DD''))"

section \<open>Records of the remote repository\<close>

text \<open>
  The JSON documents of the ArchivesSpace API, with the keys that the tool reads or
  writes. \<open>instance.get('instance_type')\<close> may be \<open>None\<close>; an instance without a
  \<open>sub_container\<close> key makes \<open>instance['sub_container']\<close> raise \<open>KeyError\<close>.
\<close>

record sub_container =
  sub_container_jsonmodel_type :: string
  top_container_ref :: string

record instance_json =
  instance_type :: "string option"
  instance_jsonmodel_type :: string
  sub_container :: "sub_container option"

record archival_object =
  publish :: bool
  title :: string
  level :: string
  component_id :: string
  instances :: "instance_json list"
  jsonmodel_type :: string
  resource :: string
  parent :: string
  extents :: "extent list"
  ancestors :: "string list"

record top_container =
  uri :: string
  indicator :: string

record repository =
  repo_code :: string
  repo_uri :: string

record search_result =
  total_hits :: "int option"
  results :: "string list"

record date_json =
  date_begin :: "string option"
  date_type :: string
  label :: string
  date_jsonmodel_type :: string

record linked =
  role :: string
  ref :: "string option"

record event =
  event_type :: string
  event_jsonmodel_type :: string
  outcome :: string
  outcome_note :: string
  linked_agents :: "linked list"
  linked_records :: "linked list"
  date :: date_json

section \<open>The session and the world outside\<close>

text \<open>
  Everything that happens outside the program is written, in order, to a trace:
  the requests sent, the exceptions logged, the rows skipped. A request is answered by
  the remote side with a status code and a body, or not at all, in which case
  \<open>requests\<close> raises a \<open>RequestException\<close>. The answer is given by an oracle that sees
  the whole trace up to and including the request, so the remote side may answer the
  same request differently each time.
\<close>

datatype payload = Record_payload archival_object | Event_payload event

datatype request = GET string | POST string "payload option"

datatype occurrence =
    Sent request
  | Logged error
  | Skipped row
  | Backup string archival_object

datatype 'a reply = Response int 'a | No_response

record env =
  login_reply :: "occurrence list \<Rightarrow> string reply"
  repositories_reply :: "occurrence list \<Rightarrow> repository list reply"
  record_reply :: "occurrence list \<Rightarrow> archival_object reply"
  container_reply :: "occurrence list \<Rightarrow> top_container reply"
  user_reply :: "occurrence list \<Rightarrow> string reply"
  search_reply :: "occurrence list \<Rightarrow> search_result reply"
  post_reply :: "occurrence list \<Rightarrow> string option reply"

text \<open>
  The body of a successful POST is read with \<open>.get('uri')\<close> only, so its model is that
  value. The body of the current user is read with \<open>['agent_record']['ref']\<close>.

  The state is the trace, the files written, and the local variables of \<open>main\<close> that
  live across rows and files: \<open>file_results\<close> (a dictionary of lists, in the order its
  keys were first used), \<open>container_list\<close> and the pair \<open>record_json, endpoint\<close>
  (the fields \<open>var_...\<close>, \<open>None\<close> while the variable is not bound), and whether \<open>row\<close> is
  bound. \<open>moved\<close> lists the files that \<open>shutil.move\<close> has moved, with their new paths,
  and \<open>notified\<close> is the argument of the one call of \<open>send_notifications.send_it\<close>.
\<close>

datatype line = Header | Data row

record state =
  trace :: "occurrence list"
  outputs :: "string \<Rightarrow> line list"
  file_results :: "(string \<times> string list) list"
  var_container_list :: "(string \<times> string) list option option"
  var_record_json_endpoint :: "(archival_object \<times> string) option"
  var_row_bound :: bool
  moved :: "(string \<times> string) list"
  notified :: "bool option"

definition emit :: "occurrence \<Rightarrow> state \<Rightarrow> state" where
  "emit x st = st\<lparr>trace := trace st @ [x]\<rparr>"

definition send :: "(occurrence list \<Rightarrow> 'a reply) \<Rightarrow> request \<Rightarrow> state \<Rightarrow> 'a reply \<times> state" where
  "send oracle rq st = (let st' = emit (Sent rq) st in (oracle (trace st'), st'))"

definition get_record ::
  "(occurrence list \<Rightarrow> 'a reply) \<Rightarrow> string \<Rightarrow> state \<Rightarrow> (error + 'a) \<times> state" where
  "get_record sesh url st =
     (case send sesh (GET url) st of
        (No_response, st') \<Rightarrow> (Inl RequestException, st')
      | (Response status_code body, st') \<Rightarrow>
          if status_code = 200 then (Inr body, st')
          else (Inl (ArchivesSpaceError url status_code), st'))"

definition post_record ::
  "(occurrence list \<Rightarrow> 'a reply) \<Rightarrow> string \<Rightarrow> payload \<Rightarrow> state \<Rightarrow> (error + 'a) \<times> state" where
  "post_record sesh url record_json st =
     (case send sesh (POST url (Some record_json)) st of
        (No_response, st') \<Rightarrow> (Inl RequestException, st')
      | (Response status_code body, st') \<Rightarrow>
          if status_code = 200 then (Inr body, st')
          else (Inl (ArchivesSpaceError url status_code), st'))"

section \<open>Containers\<close>

fun get_uris_loop :: "instance_json list \<Rightarrow> string list \<Rightarrow> error + string list" where
  "get_uris_loop [] container_uri_list = Inr container_uri_list"
| "get_uris_loop (i # rest) container_uri_list =
     (if instance_type i \<noteq> Some ''digital_object'' then
        (case sub_container i of
           None \<Rightarrow> Inl KeyError
         | Some sc \<Rightarrow> get_uris_loop rest (container_uri_list @ [top_container_ref sc]))
      else get_uris_loop rest container_uri_list)"

definition get_uris :: "archival_object \<Rightarrow> error + string list" where
  "get_uris record_json = get_uris_loop (instances record_json) []"

text \<open>
  In \<open>generate_container_list\<close> the handler of \<open>ArchivesSpaceError\<close> prints
  \<open>record_json\<close>, which is bound only after a first container was fetched; before
  that the handler itself raises \<open>UnboundLocalError\<close>. The flag says whether it is bound.
\<close>

fun generate_loop ::
  "env \<Rightarrow> string \<Rightarrow> string list \<Rightarrow> bool \<Rightarrow> (string \<times> string) list \<Rightarrow> state
   \<Rightarrow> (error + (string \<times> string) list) \<times> state" where
  "generate_loop e api_url [] bound container_store st = (Inr container_store, st)"
| "generate_loop e api_url (container_uri # us) bound container_store st =
     (case get_record (container_reply e) (api_url @ container_uri) st of
        (Inr record_json, st') \<Rightarrow>
          generate_loop e api_url us True
            (container_store @ [(uri record_json, indicator record_json)]) st'
      | (Inl err, st') \<Rightarrow>
          if is_ArchivesSpaceError err then
            (if bound then generate_loop e api_url us bound container_store (emit (Logged err) st')
             else (Inl UnboundLocalError, st'))
          else (Inl err, st'))"

definition generate_container_list ::
  "env \<Rightarrow> string \<Rightarrow> archival_object \<Rightarrow> state \<Rightarrow> (error + (string \<times> string) list) \<times> state" where
  "generate_container_list e api_url parent_json st =
     (case get_uris parent_json of
        Inl err \<Rightarrow> (Inl err, st)
      | Inr container_uri_list \<Rightarrow>
          if container_uri_list \<noteq> [] then generate_loop e api_url container_uri_list False [] st
          else (Inl RecordNotFoundError, st))"

text \<open>
  \<open>get_instance_data\<close> returns the list, or \<open>None\<close> after it caught and logged a
  \<open>RecordNotFoundError\<close> of \<open>generate_container_list\<close>.
\<close>

definition get_instance_data ::
  "env \<Rightarrow> string \<Rightarrow> archival_object \<Rightarrow> state
   \<Rightarrow> (error + (string \<times> string) list option) \<times> state" where
  "get_instance_data e api_url record_json st =
     (let container_instances =
            filter (\<lambda>i. instance_type i \<noteq> Some ''digital_object'') (instances record_json)
      in if container_instances \<noteq> [] then
           (case generate_container_list e api_url record_json st of
              (Inr container_list, st') \<Rightarrow> (Inr (Some container_list), st')
            | (Inl err, st') \<Rightarrow>
                if err = RecordNotFoundError then (Inr None, emit (Logged err) st')
                else (Inl err, st'))
         else (Inl RecordNotFoundError, st))"

text \<open>
  \<open>get_containers\<close>: the record itself, then its first ancestor. Both \<open>except\<close> clauses
  log and fall through to the end of the function, which returns \<open>None\<close>;
  \<open>record_json['ancestors'][0]\<close> on an empty list raises \<open>IndexError\<close>, which no clause
  catches.
\<close>

definition get_containers ::
  "env \<Rightarrow> string \<Rightarrow> string \<Rightarrow> string option \<Rightarrow> state
   \<Rightarrow> (error + (string \<times> string) list option) \<times> state" where
  "get_containers e api_url parent_id repo_id st =
     (let record_url = api_url @ ''/repositories/'' @ fstr repo_id @ ''/archival_objects/'' @ parent_id;
          caught = (\<lambda>err. is_ArchivesSpaceError err \<or> err = RecordNotFoundError)
      in case get_record (record_reply e) record_url st of
           (Inl err, st1) \<Rightarrow>
             if caught err then (Inr None, emit (Logged err) st1) else (Inl err, st1)
         | (Inr record_json, st1) \<Rightarrow>
             (case get_instance_data e api_url record_json st1 of
                (Inr container_list, st2) \<Rightarrow> (Inr container_list, st2)
              | (Inl err, st2) \<Rightarrow>
                  if err = RecordNotFoundError then
                    (case ancestors record_json of
                       [] \<Rightarrow> (Inl IndexError, st2)
                     | a # _ \<Rightarrow>
                         (case get_record (record_reply e) (api_url @ ''/'' @ a) st2 of
                            (Inl err', st3) \<Rightarrow>
                              if caught err' then (Inr None, emit (Logged err') st3)
                              else (Inl err', st3)
                          | (Inr parent_json, st3) \<Rightarrow>
                              (case get_instance_data e api_url parent_json st3 of
                                 (Inr container_list, st4) \<Rightarrow> (Inr container_list, st4)
                               | (Inl err', st4) \<Rightarrow>
                                   if caught err' then (Inr None, emit (Logged err') st4)
                                   else (Inl err', st4))))
                  else if is_ArchivesSpaceError err then (Inr None, emit (Logged err) st2)
                  else (Inl err, st2)))"

fun match_containers :: "(string \<times> string) list \<Rightarrow> string option \<Rightarrow> error + string" where
  "match_containers [] container_number = Inl RecordNotFoundError"
| "match_containers ((u, i) # rest) container_number =
     (if Some i = container_number then Inr u else match_containers rest container_number)"

text \<open>
  \<open>get_matched_containers\<close> catches every exception, also the \<open>TypeError\<close> of
  iterating over a \<open>container_list\<close> that is \<open>None\<close>, logs it and returns \<open>None\<close>.
\<close>

definition get_matched_containers ::
  "(string \<times> string) list option \<Rightarrow> string option \<Rightarrow> state \<Rightarrow> string option \<times> state" where
  "get_matched_containers container_list container_number st =
     (case (case container_list of
              None \<Rightarrow> Inl TypeError
            | Some l \<Rightarrow> match_containers l container_number) of
        Inr u \<Rightarrow> (Some u, st)
      | Inl err \<Rightarrow> (None, emit (Logged err) st))"

section \<open>Repository and agent\<close>

text \<open>
  \<open>get_repositories\<close> builds a dictionary from the repository codes to the text after
  the 14 characters \<open>/repositories/\<close> of each URI; a later entry of the list replaces an
  earlier one with the same code. Its handler of \<open>ArchivesSpaceError\<close> prints
  \<open>repo_list\<close>, which is not bound when \<open>get_record\<close> has raised.
\<close>

definition get_repositories ::
  "env \<Rightarrow> string \<Rightarrow> state \<Rightarrow> (error + (string \<rightharpoonup> string)) \<times> state" where
  "get_repositories e api_url st =
     (case get_record (repositories_reply e) (api_url @ ''/repositories'') st of
        (Inr repo_list, st') \<Rightarrow>
          (Inr (map_of (rev (map (\<lambda>repo. (repo_code repo, drop 14 (repo_uri repo))) repo_list))),
           st')
      | (Inl err, st') \<Rightarrow>
          if is_ArchivesSpaceError err then (Inl UnboundLocalError, st') else (Inl err, st'))"

definition set_repository ::
  "env \<Rightarrow> row \<Rightarrow> string \<Rightarrow> state \<Rightarrow> (error + string) \<times> state" where
  "set_repository e first_row api_url st =
     (case get_repositories e api_url st of
        (Inl err, st') \<Rightarrow> (Inl err, st')
      | (Inr repo_dict, st') \<Rightarrow>
          (case repo_dict (Repository_Name first_row) of
             Some r \<Rightarrow> (Inr r, st')
           | None \<Rightarrow> (Inl RecordNotFoundError, st')))"

definition get_repo ::
  "env \<Rightarrow> row \<Rightarrow> string \<Rightarrow> state \<Rightarrow> (error + string option) \<times> state" where
  "get_repo e first_row api_url st =
     (case set_repository e first_row api_url st of
        (Inr r, st') \<Rightarrow> (Inr (Some r), st')
      | (Inl err, st') \<Rightarrow>
          if is_ArchivesSpaceError err \<or> err = RecordNotFoundError
          then (Inr None, emit (Logged err) st')
          else (Inl err, st'))"

definition get_current_user :: "env \<Rightarrow> string \<Rightarrow> state \<Rightarrow> (error + string) \<times> state" where
  "get_current_user e api_url st =
     (case send (user_reply e) (GET (api_url @ ''/users/current-user'')) st of
        (No_response, st') \<Rightarrow> (Inl RequestException, st')
      | (Response status_code agent_record_ref, st') \<Rightarrow> (Inr agent_record_ref, st'))"

text \<open>
  In \<open>set_agent\<close> the last branch names a variable \<open>url\<close> that the function does not
  have, so it raises \<open>NameError\<close>; \<open>None > 1\<close> is a \<open>TypeError\<close>.
\<close>

definition set_agent ::
  "env \<Rightarrow> string \<Rightarrow> string option \<Rightarrow> string option \<Rightarrow> state \<Rightarrow> (error + string) \<times> state" where
  "set_agent e api_url agent_authorizer username st =
     (if agent_authorizer \<noteq> Some [] \<and> agent_authorizer \<noteq> None \<and> agent_authorizer \<noteq> username
      then
        (case send (search_reply e)
                (GET (api_url @ ''/search?page=1&type[]=agent_person&q=title:'' @ fstr agent_authorizer))
                st of
           (No_response, st') \<Rightarrow> (Inl RequestException, st')
         | (Response status_code search_agents, st') \<Rightarrow>
             if total_hits search_agents = Some 1 then
               (case results search_agents of
                  [] \<Rightarrow> (Inl IndexError, st')
                | u # _ \<Rightarrow> (Inr u, st'))
             else if total_hits search_agents = Some 0 then (Inl RecordNotFoundError, st')
             else
               (case total_hits search_agents of
                  None \<Rightarrow> (Inl TypeError, st')
                | Some n \<Rightarrow> if n > 1 then (Inl RecordNotFoundError, st') else (Inl NameError, st')))
      else get_current_user e api_url st)"

definition get_agent ::
  "env \<Rightarrow> string \<Rightarrow> string option \<Rightarrow> string option \<Rightarrow> state
   \<Rightarrow> (error + string option) \<times> state" where
  "get_agent e api_url agent_authorizer username st =
     (case set_agent e api_url agent_authorizer username st of
        (Inr a, st') \<Rightarrow> (Inr (Some a), st')
      | (Inl err, st') \<Rightarrow>
          if is_ArchivesSpaceError err \<or> err = RecordNotFoundError
          then (Inr None, emit (Logged err) st')
          else (Inl err, st'))"

section \<open>Building the record to post\<close>

definition create_instance :: "string \<Rightarrow> instance_json" where
  "create_instance container_uri =
     \<lparr>instance_type = Some ''mixed_materials'', instance_jsonmodel_type = ''instance'',
      sub_container = Some \<lparr>sub_container_jsonmodel_type = ''sub_container'',
                             top_container_ref = container_uri\<rparr>\<rparr>"

text \<open>
  \<open>update_archival_object\<close> returns the pair \<open>(record_json, endpoint)\<close>, or \<open>None\<close> after
  it caught and logged an \<open>ArchivesSpaceError\<close> of \<open>get_record\<close>. \<open>create_backups\<close> writes
  the fetched record to a file of the backup directory.
\<close>

definition update_archival_object ::
  "env \<Rightarrow> string \<Rightarrow> row \<Rightarrow> string \<Rightarrow> string option \<Rightarrow> state
   \<Rightarrow> (error + (archival_object \<times> string) option) \<times> state" where
  "update_archival_object e api_url r ao_id repo_id st =
     (let record_uri = api_url @ ''/repositories/'' @ fstr repo_id @ ''/archival_objects/'' @ ao_id;
          endpoint = ''/repositories/'' @ fstr repo_id @ ''/archival_objects/'' @ ao_id
      in case get_record (record_reply e) record_uri st of
           (Inl err, st') \<Rightarrow>
             if is_ArchivesSpaceError err then (Inr None, emit (Logged err) st')
             else (Inl err, st')
         | (Inr record_json, st') \<Rightarrow>
             (let st'' = emit (Backup endpoint record_json) st';
                  record_json = record_json\<lparr>component_id := Component_Unique_ID r\<rparr>;
                  record_json = record_json\<lparr>extents := update_extents r\<rparr>
              in case Top_Container r of
                   None \<Rightarrow> (Inr (Some (record_json, endpoint)), st'')
                 | Some tc \<Rightarrow>
                     if tc = [] then (Inr (Some (record_json, endpoint)), st'')
                     else
                       (case get_uris record_json of
                          Inl err \<Rightarrow> (Inl err, st'')
                        | Inr current_container_uris \<Rightarrow>
                            if tc \<notin> set current_container_uris then
                              (Inr (Some (record_json\<lparr>instances :=
                                             instances record_json @ [create_instance tc]\<rparr>,
                                          endpoint)), st'')
                            else (Inr (Some (record_json, endpoint)), st''))))"

definition create_archival_object ::
  "row \<Rightarrow> string option \<Rightarrow> string \<Rightarrow> string \<Rightarrow> archival_object \<times> string" where
  "create_archival_object r repo_id parent_id resource_id =
     (let new_archival_object =
            \<lparr>publish = True, title = Title r, level = ''item'',
             component_id = Component_Unique_ID r, instances = [],
             jsonmodel_type = ''archival_object'',
             resource = ''/repositories/'' @ fstr repo_id @ ''/resources/'' @ resource_id,
             parent = ''/repositories/'' @ fstr repo_id @ ''/archival_objects/'' @ parent_id,
             extents = [], ancestors = []\<rparr>;
          new_archival_object =
            (if Title r = [] then new_archival_object\<lparr>title := ''[no label]''\<rparr>
             else new_archival_object);
          new_archival_object = new_archival_object\<lparr>extents := update_extents r\<rparr>;
          new_archival_object =
            (case Top_Container r of
               None \<Rightarrow> new_archival_object
             | Some tc \<Rightarrow>
                 if tc = [] then new_archival_object
                 else new_archival_object\<lparr>instances :=
                        instances new_archival_object @ [create_instance tc]\<rparr>);
          endpoint = ''/repositories/'' @ fstr repo_id @ ''/archival_objects''
      in (new_archival_object, endpoint))"

section \<open>Events\<close>

text \<open>
  \<open>create_event\<close> catches \<open>DataValidationError\<close> only, logs it and returns \<open>None\<close>; any
  other exception of \<open>check_dates\<close> leaves the function.
\<close>

definition create_event ::
  "string option \<Rightarrow> string option \<Rightarrow> string option \<Rightarrow> string \<Rightarrow> string \<Rightarrow> string \<Rightarrow> string
   \<Rightarrow> state \<Rightarrow> (error + event option) \<times> state" where
  "create_event agent_uri ao_id repo_id ev_type ev_outcome date_value ev_note st =
     (case check_dates date_value of
        Inr date_value' \<Rightarrow>
          (Inr (Some
             \<lparr>event_type = str_lower ev_type, event_jsonmodel_type = ''event'',
              outcome = str_lower ev_outcome, outcome_note = ev_note,
              linked_agents = [\<lparr>role = ''authorizer'', ref = agent_uri\<rparr>],
              linked_records =
                [\<lparr>role = ''source'',
                  ref = Some (''/repositories/'' @ fstr repo_id @ ''/archival_objects/'' @ fstr ao_id)\<rparr>],
              date = \<lparr>date_begin = date_value', date_type = ''single'', label = ''event'',
                      date_jsonmodel_type = ''date''\<rparr>\<rparr>), st)
      | Inl err \<Rightarrow>
          if is_DataValidationError err then (Inr None, emit (Logged err) st)
          else (Inl err, st))"

text \<open>
  \<open>event_helper\<close> returns the URI of the posted event (the \<open>.get('uri')\<close> of the
  response), or \<open>None\<close> after it caught and logged a \<open>DataValidationError\<close> or an
  \<open>ArchivesSpaceError\<close>. A dictionary with keys is true, so every event that
  \<open>create_event\<close> returns is posted.
\<close>

definition event_helper ::
  "env \<Rightarrow> string \<Rightarrow> string option \<Rightarrow> string option \<Rightarrow> string option \<Rightarrow> string \<Rightarrow> string
   \<Rightarrow> string \<Rightarrow> string \<Rightarrow> state \<Rightarrow> (error + string option) \<times> state" where
  "event_helper e api_url agent_uri record_uri repo_id ev_type ev_outcome begin_date ev_note st =
     (let caught = (\<lambda>err. is_DataValidationError err \<or> is_ArchivesSpaceError err)
      in case create_event agent_uri record_uri repo_id ev_type ev_outcome begin_date ev_note st of
           (Inl err, st1) \<Rightarrow>
             if caught err then (Inr None, emit (Logged err) st1) else (Inl err, st1)
         | (Inr None, st1) \<Rightarrow>
             (Inr None, emit (Logged (DataValidationError None [])) st1)
         | (Inr (Some new_event), st1) \<Rightarrow>
             (case post_record (post_reply e)
                     (api_url @ ''/repositories/'' @ fstr repo_id @ ''/events'')
                     (Event_payload new_event) st1 of
                (Inr event_uri, st2) \<Rightarrow> (Inr event_uri, st2)
              | (Inl err, st2) \<Rightarrow>
                  if caught err then (Inr None, emit (Logged err) st2) else (Inl err, st2)))"

text \<open>
  One slot of \<open>post_events\<close>: when the type of the slot is neither \<open>''\<close> nor \<open>None\<close>, the
  key of the slot is stored in \<open>event_uris\<close> with whatever \<open>event_helper\<close> returned.
\<close>

definition post_slot ::
  "env \<Rightarrow> string \<Rightarrow> string option \<Rightarrow> string option \<Rightarrow> string option \<Rightarrow> string
   \<Rightarrow> string option \<Rightarrow> string \<Rightarrow> string \<Rightarrow> string
   \<Rightarrow> (string \<rightharpoonup> string option) \<Rightarrow> state
   \<Rightarrow> (error + (string \<rightharpoonup> string option)) \<times> state" where
  "post_slot e api_url agent_uri record_uri repo_id key ev_type ev_outcome begin_date ev_note
             event_uris st =
     (case ev_type of
        None \<Rightarrow> (Inr event_uris, st)
      | Some t \<Rightarrow>
          if t = [] then (Inr event_uris, st)
          else
            (case event_helper e api_url agent_uri record_uri repo_id t ev_outcome begin_date
                    ev_note st of
               (Inl err, st') \<Rightarrow> (Inl err, st')
             | (Inr new_event_uri, st') \<Rightarrow> (Inr (event_uris(key \<mapsto> new_event_uri)), st')))"

text \<open>
  \<open>post_events\<close> returns the dictionary \<open>event_uris\<close>, or \<open>None\<close> after it caught and
  logged an \<open>ArchivesSpaceError\<close> or a \<open>DataValidationError\<close>.
\<close>

definition post_events ::
  "env \<Rightarrow> row \<Rightarrow> string option \<Rightarrow> string option \<Rightarrow> string option \<Rightarrow> string \<Rightarrow> state
   \<Rightarrow> (error + (string \<rightharpoonup> string option) option) \<times> state" where
  "post_events e r agent_uri repo_id record_uri api_url st =
     (let caught = (\<lambda>err. is_ArchivesSpaceError err \<or> is_DataValidationError err);
          handler = (\<lambda>err st'. if caught err then (Inr None, emit (Logged err) st')
                               else (Inl err, st'))
      in case post_slot e api_url agent_uri record_uri repo_id ''Event_URI_1''
                (Event_Type_1 r) (Outcome_1 r) (Begin_1 r) (Outcome_Note_1 r) Map.empty st of
           (Inl err, st1) \<Rightarrow> handler err st1
         | (Inr event_uris1, st1) \<Rightarrow>
             (case post_slot e api_url agent_uri record_uri repo_id ''Event_URI_2''
                     (Event_Type_2 r) (Outcome_2 r) (Begin_2 r) (Outcome_Note_2 r) event_uris1 st1 of
                (Inl err, st2) \<Rightarrow> handler err st2
              | (Inr event_uris2, st2) \<Rightarrow>
                  (case post_slot e api_url agent_uri record_uri repo_id ''Event_URI_3''
                          (Event_Type_3 r) (Outcome_3 r) (Begin_3 r) (Outcome_Note_3 r)
                          event_uris2 st2 of
                     (Inl err, st3) \<Rightarrow> handler err st3
                   | (Inr event_uris3, st3) \<Rightarrow> (Inr (Some event_uris3), st3))))"

section \<open>The run\<close>

text \<open>
  The configuration holds the keys that \<open>main\<close> reads. The address and the credentials
  are present in it (otherwise \<open>get_credentials\<close> asks for them at the console).
\<close>

record config =
  cfg_api_url :: string
  cfg_username :: string
  cfg_password :: string
  cfg_event_authorizer :: "string option"
  cfg_network_drive_path :: string

text \<open>
  An input file: its path, and the data lines that follow the two header lines.
\<close>

record csv_file =
  file_name :: string
  file_rows :: "row list"

definition start_session ::
  "env \<Rightarrow> string \<Rightarrow> string \<Rightarrow> string \<Rightarrow> state \<Rightarrow> (error + string) \<times> state" where
  "start_session e url username password st =
     (case send (login_reply e)
             (POST (url @ ''/users/'' @ username @ ''/login?password='' @ password) None) st of
        (No_response, st') \<Rightarrow> (Inl RequestException, st')
      | (Response status_code session_token, st') \<Rightarrow>
          if status_code = 200 then (Inr url, st') else (Inl (LoginError status_code), st'))"

fun is_LoginError :: "error \<Rightarrow> bool" where
  "is_LoginError (LoginError c) = True"
| "is_LoginError e = False"

definition get_session ::
  "env \<Rightarrow> string \<Rightarrow> string \<Rightarrow> string \<Rightarrow> state \<Rightarrow> (error + string option) \<times> state" where
  "get_session e url username password st =
     (case start_session e url username password st of
        (Inr u, st') \<Rightarrow> (Inr (Some u), st')
      | (Inl err, st') \<Rightarrow>
          if is_LoginError err then (Inr None, emit (Logged err) st') else (Inl err, st'))"

text \<open>\<open>get_action\<close> logs the \<open>FileNameError\<close> and returns \<open>None\<close>.\<close>

definition get_action :: "string \<Rightarrow> state \<Rightarrow> action option \<times> state" where
  "get_action input_file st =
     (case set_action_type input_file of
        Inr a \<Rightarrow> (Some a, st)
      | Inl err \<Rightarrow> (None, emit (Logged err) st))"

text \<open>\<open>file_results[key].append(v)\<close> on the \<open>defaultdict(list)\<close>.\<close>

fun append_result ::
  "string \<Rightarrow> string \<Rightarrow> (string \<times> string list) list \<Rightarrow> (string \<times> string list) list" where
  "append_result key v [] = [(key, [v])]"
| "append_result key v ((k, vs) # rest) =
     (if k = key then (k, vs @ [v]) # rest else (k, vs) # append_result key v rest)"

definition results_of :: "string \<Rightarrow> (string \<times> string list) list \<Rightarrow> string list" where
  "results_of key d = (case map_of d key of None \<Rightarrow> [] | Some vs \<Rightarrow> vs)"

text \<open>\<open>row.update(event_uris)\<close>: every key of \<open>event_uris\<close> is stored in the row.\<close>

definition row_update :: "row \<Rightarrow> (string \<rightharpoonup> string option) \<Rightarrow> row" where
  "row_update r event_uris =
     r\<lparr>Event_URI_1 := (case event_uris ''Event_URI_1'' of Some v \<Rightarrow> v | None \<Rightarrow> Event_URI_1 r),
       Event_URI_2 := (case event_uris ''Event_URI_2'' of Some v \<Rightarrow> v | None \<Rightarrow> Event_URI_2 r),
       Event_URI_3 := (case event_uris ''Event_URI_3'' of Some v \<Rightarrow> v | None \<Rightarrow> Event_URI_3 r)\<rparr>"

text \<open>The variables of \<open>main\<close> that stay the same through the rows of one file.\<close>

record file_vars =
  api_url_of :: string
  input_csv_file :: string
  output_csv_file :: string
  action_of :: "action option"
  repo_identifier :: "string option"
  agent_uri_of :: "string option"
  previous_container :: string

subsection \<open>The body of the row loop\<close>

text \<open>
  Lines 551 to 555 of \<open>main\<close>: the container of the row. \<open>previous_container\<close> is
  assigned once per file, before the loop, and the loop does not assign it.
\<close>

definition container_step ::
  "env \<Rightarrow> file_vars \<Rightarrow> string \<Rightarrow> row \<Rightarrow> state \<Rightarrow> (error + row) \<times> state" where
  "container_step e c record_id r st =
     (if Top_Container r \<noteq> Some [] then
        (case (if Top_Container r \<noteq> Some (previous_container c) then
                 (case get_containers e (api_url_of c) record_id (repo_identifier c) st of
                    (Inl err, st') \<Rightarrow> (Inl err, st')
                  | (Inr cl, st') \<Rightarrow> (Inr (), st'\<lparr>var_container_list := Some cl\<rparr>))
               else (Inr (), st)) of
           (Inl err, st') \<Rightarrow> (Inl err, st')
         | (Inr u, st') \<Rightarrow>
             (case var_container_list st' of
                None \<Rightarrow> (Inl UnboundLocalError, st')
              | Some cl \<Rightarrow>
                  (case get_matched_containers cl (Top_Container r) st' of
                     (m, st'') \<Rightarrow> (Inr (r\<lparr>Top_Container := m\<rparr>), st''))))
      else (Inr r, st))"

text \<open>
  Lines 558 to 561: \<open>str(action)\<close> names the function, and is \<open>'None'\<close> when
  \<open>get_action\<close> returned \<open>None\<close>, so that neither branch assigns. Unpacking the \<open>None\<close>
  that \<open>update_archival_object\<close> may return is a \<open>TypeError\<close>.
\<close>

definition build_step ::
  "env \<Rightarrow> file_vars \<Rightarrow> string \<Rightarrow> string \<Rightarrow> row \<Rightarrow> state \<Rightarrow> (error + unit) \<times> state" where
  "build_step e c record_id resource_identifier r st =
     (case action_of c of
        Some update_archival_object_fn \<Rightarrow>
          (case update_archival_object e (api_url_of c) r record_id (repo_identifier c) st of
             (Inl err, st') \<Rightarrow> (Inl err, st')
           | (Inr None, st') \<Rightarrow> (Inl TypeError, st')
           | (Inr (Some p), st') \<Rightarrow> (Inr (), st'\<lparr>var_record_json_endpoint := Some p\<rparr>))
      | Some create_archival_object_fn \<Rightarrow>
          (Inr (), st\<lparr>var_record_json_endpoint :=
                        Some (create_archival_object r (repo_identifier c) record_id
                                resource_identifier)\<rparr>)
      | None \<Rightarrow> (Inr (), st))"

text \<open>
  Lines 562 to 576: post the record and its events and write the row. The handler
  catches \<open>ArchivesSpaceError\<close> and \<open>RequestException\<close>, logs, adds the file to
  \<open>file_results['errors']\<close> and leaves the loop.
\<close>

datatype flow = Next | Break

definition post_step ::
  "env \<Rightarrow> file_vars \<Rightarrow> row \<Rightarrow> state \<Rightarrow> (error + flow) \<times> state" where
  "post_step e c r st =
     (let handler = (\<lambda>err st'.
            if is_ArchivesSpaceError err \<or> err = RequestException then
              (Inr Break,
               (emit (Logged err) st')
                 \<lparr>file_results := append_result ''errors'' (input_csv_file c) (file_results st')\<rparr>)
            else (Inl err, st'))
      in case var_record_json_endpoint st of
           None \<Rightarrow> (Inl UnboundLocalError, st)
         | Some (record_json, endpoint) \<Rightarrow>
             (case post_record (post_reply e) (api_url_of c @ endpoint)
                     (Record_payload record_json) st of
                (Inl err, st1) \<Rightarrow> handler err st1
              | (Inr record_post_uri, st1) \<Rightarrow>
                  (let r1 = r\<lparr>New_Component_URI := record_post_uri\<rparr>
                   in case post_events e r1 (agent_uri_of c) (repo_identifier c) record_post_uri
                             (api_url_of c) st1 of
                        (Inl err, st2) \<Rightarrow> handler err st2
                      | (Inr None, st2) \<Rightarrow> (Inl TypeError, st2)
                      | (Inr (Some event_uris), st2) \<Rightarrow>
                          (Inr Next,
                           st2\<lparr>outputs := (outputs st2)
                                 (output_csv_file c :=
                                    outputs st2 (output_csv_file c)
                                    @ [Data (row_update r1 event_uris)])\<rparr>))))"

definition row_body :: "env \<Rightarrow> file_vars \<Rightarrow> row \<Rightarrow> state \<Rightarrow> (error + flow) \<times> state" where
  "row_body e c r st0 =
     (let st = st0\<lparr>var_row_bound := True\<rparr>;
          resource_identifier = set_resource (Parent_Record r);
          record_id = record_id_of (Parent_Record r)
      in if record_id \<noteq> [] then
           (case container_step e c record_id r st of
              (Inl err, st1) \<Rightarrow> (Inl err, st1)
            | (Inr r1, st1) \<Rightarrow>
                (case build_step e c record_id resource_identifier r1 st1 of
                   (Inl err, st2) \<Rightarrow> (Inl err, st2)
                 | (Inr u, st2) \<Rightarrow> post_step e c r1 st2))
         else (Inr Next, emit (Skipped r) st))"

fun process_rows :: "env \<Rightarrow> file_vars \<Rightarrow> row list \<Rightarrow> state \<Rightarrow> (error + unit) \<times> state" where
  "process_rows e c [] st = (Inr (), st)"
| "process_rows e c (r # rs) st =
     (case row_body e c r st of
        (Inl err, st') \<Rightarrow> (Inl err, st')
      | (Inr Break, st') \<Rightarrow> (Inr (), st')
      | (Inr Next, st') \<Rightarrow> process_rows e c rs st')"

subsection \<open>One file\<close>

text \<open>
  Lines 520 to 582. \<open>first_row\<close> is the first data line as \<open>csv.reader\<close> gives it:
  \<open>csvlist[0]\<close> raises \<open>IndexError\<close> for a file without data lines, and so does
  \<open>first_row[8]\<close> for a first line without that cell. The output file is opened for
  appending and the header is written before the rows are read.
\<close>

definition process_file ::
  "env \<Rightarrow> config \<Rightarrow> string \<Rightarrow> csv_file \<Rightarrow> state \<Rightarrow> (error + unit) \<times> state" where
  "process_file e cfg api_url f st =
     (let drive_path = cfg_network_drive_path cfg;
          out = str_replace drive_path (drive_path @ ''/outputs'')
                  (str_replace ''.csv'' [] (file_name f)) @ ''_out.csv''
      in case file_rows f of
           [] \<Rightarrow> (Inl IndexError, st)
         | first_row # _ \<Rightarrow>
             (case get_action (file_name f) st of
                (action, st1) \<Rightarrow>
                  (case get_repo e first_row api_url st1 of
                     (Inl err, st2) \<Rightarrow> (Inl err, st2)
                   | (Inr repo_id, st2) \<Rightarrow>
                       (let parent_identifier = set_parent first_row
                        in case get_agent e api_url (cfg_event_authorizer cfg)
                                  (Some (cfg_username cfg)) st2 of
                             (Inl err, st3) \<Rightarrow> (Inl err, st3)
                           | (Inr agent_uri, st3) \<Rightarrow>
                               (case Top_Container first_row of
                                  None \<Rightarrow> (Inl IndexError, st3)
                                | Some prev \<Rightarrow>
                                    (case (if prev \<noteq> [] then
                                             (case get_containers e api_url parent_identifier
                                                     repo_id st3 of
                                                (Inl err, st') \<Rightarrow> (Inl err, st')
                                              | (Inr cl, st') \<Rightarrow>
                                                  (Inr (), st'\<lparr>var_container_list := Some cl\<rparr>))
                                           else (Inr (), st3)) of
                                       (Inl err, st4) \<Rightarrow> (Inl err, st4)
                                     | (Inr u, st4) \<Rightarrow>
                                         (let c = \<lparr>api_url_of = api_url,
                                                   input_csv_file = file_name f,
                                                   output_csv_file = out, action_of = action,
                                                   repo_identifier = repo_id,
                                                   agent_uri_of = agent_uri,
                                                   previous_container = prev\<rparr>;
                                              st5 = st4\<lparr>outputs := (outputs st4)
                                                      (out := outputs st4 out @ [Header])\<rparr>
                                          in case process_rows e c (file_rows f) st5 of
                                               (Inl err, st6) \<Rightarrow> (Inl err, st6)
                                             | (Inr u', st6) \<Rightarrow>
                                                 (Inr (),
                                                  st6\<lparr>file_results :=
                                                        append_result ''complete'' (file_name f)
                                                          (file_results st6)\<rparr>))))))))"

fun process_files ::
  "env \<Rightarrow> config \<Rightarrow> string \<Rightarrow> csv_file list \<Rightarrow> state \<Rightarrow> (error + unit) \<times> state" where
  "process_files e cfg api_url [] st = (Inr (), st)"
| "process_files e cfg api_url (f # fs) st =
     (case process_file e cfg api_url f st of
        (Inl err, st') \<Rightarrow> (Inl err, st')
      | (Inr u, st') \<Rightarrow> process_files e cfg api_url fs st')"

subsection \<open>Sorting the files\<close>

text \<open>
  \<open>shutil.move\<close> raises \<open>FileNotFoundError\<close> when the source is no longer where it was:
  that is, when an earlier move has taken it to another path.
\<close>

fun move_files_helper :: "string list \<Rightarrow> string \<Rightarrow> state \<Rightarrow> (error + unit) \<times> state" where
  "move_files_helper [] key st = (Inr (), st)"
| "move_files_helper (source_path # rest) key st =
     (let dest_path = str_replace ''aspace_spreadsheets_all_repos/''
                        (''aspace_spreadsheets_all_repos/'' @ key @ ''/'') source_path
      in if source_path \<in> set (map fst (filter (\<lambda>(s, d). d \<noteq> s) (moved st)))
         then (Inl FileNotFoundError, st)
         else move_files_helper rest key (st\<lparr>moved := moved st @ [(source_path, dest_path)]\<rparr>))"

fun move_files :: "(string \<times> string list) list \<Rightarrow> state \<Rightarrow> (error + unit) \<times> state" where
  "move_files [] st = (Inr (), st)"
| "move_files ((key, vs) # rest) st =
     (if key = ''complete'' \<or> key = ''errors'' then
        (case move_files_helper vs key st of
           (Inl err, st') \<Rightarrow> (Inl err, st')
         | (Inr u, st') \<Rightarrow> move_files rest st')
      else move_files rest st)"

subsection \<open>\<open>main\<close>\<close>

definition initial :: state where
  "initial =
     \<lparr>trace = [], outputs = (\<lambda>n. []), file_results = [], var_container_list = None,
      var_record_json_endpoint = None, var_row_bound = False, moved = [], notified = None\<rparr>"

text \<open>The \<open>try\<close> block of \<open>main\<close>; unpacking the \<open>None\<close> of \<open>get_session\<close> is a \<open>TypeError\<close>.\<close>

definition main_try :: "env \<Rightarrow> config \<Rightarrow> csv_file list \<Rightarrow> state \<Rightarrow> (error + unit) \<times> state" where
  "main_try e cfg file_listing st =
     (case get_session e (cfg_api_url cfg) (cfg_username cfg) (cfg_password cfg) st of
        (Inl err, st1) \<Rightarrow> (Inl err, st1)
      | (Inr None, st1) \<Rightarrow> (Inl TypeError, st1)
      | (Inr (Some api_url), st1) \<Rightarrow> process_files e cfg api_url file_listing st1)"

text \<open>
  \<open>main\<close> returns the exception that leaves it, if any, and the final state. The
  handler of the \<open>try\<close> block prints \<open>row\<close>, which raises \<open>UnboundLocalError\<close> when no
  row was read yet; the \<open>finally\<close> block runs in every case, and an exception of
  \<open>move_files\<close> leaves \<open>main\<close> before the notification is sent.
\<close>

definition main :: "env \<Rightarrow> config \<Rightarrow> csv_file list \<Rightarrow> error option \<times> state" where
  "main e cfg file_listing =
     (case main_try e cfg file_listing initial of
        (r, st1) \<Rightarrow>
          (let results = (case r of Inr u \<Rightarrow> True | Inl err \<Rightarrow> False);
               pending = (case r of
                            Inr u \<Rightarrow> None
                          | Inl err \<Rightarrow> if var_row_bound st1 then None else Some UnboundLocalError);
               st2 = (case r of
                        Inr u \<Rightarrow> st1
                      | Inl err \<Rightarrow> if var_row_bound st1 then emit (Logged err) st1 else st1)
           in case move_files (file_results st2) st2 of
                (Inl err, st3) \<Rightarrow> (Some err, st3)
              | (Inr u, st3) \<Rightarrow> (pending, st3\<lparr>notified := Some results\<rparr>)))"

section \<open>What a step leaves as it was\<close>

fun is_Skipped :: "occurrence \<Rightarrow> bool" where
  "is_Skipped (Skipped r) = True"
| "is_Skipped x = False"

text \<open>
  \<open>unskipped st st'\<close>: from \<open>st\<close> to \<open>st'\<close> the trace has only grown, and no row was
  skipped. \<open>advances st st'\<close>: moreover the output files and \<open>file_results\<close> are the same.
  \<open>extends st st'\<close>: the trace, every output file and every list of \<open>file_results\<close> have
  only grown.
\<close>

definition unskipped :: "state \<Rightarrow> state \<Rightarrow> bool" where
  "unskipped st st' \<longleftrightarrow> (\<exists>xs. trace st' = trace st @ xs \<and> filter is_Skipped xs = [])"

definition advances :: "state \<Rightarrow> state \<Rightarrow> bool" where
  "advances st st' \<longleftrightarrow>
     unskipped st st' \<and> outputs st' = outputs st \<and> file_results st' = file_results st"

definition extends :: "state \<Rightarrow> state \<Rightarrow> bool" where
  "extends st st' \<longleftrightarrow>
     prefix (trace st) (trace st')
     \<and> (\<forall>n. prefix (outputs st n) (outputs st' n))
     \<and> (\<forall>k. prefix (results_of k (file_results st)) (results_of k (file_results st')))"

text \<open>
  The references to top containers of the instances of a record that are not digital
  objects, as the specification words what \<open>get_uris\<close> collects.
\<close>

definition container_refs :: "archival_object \<Rightarrow> string list" where
  "container_refs record_json =
     concat (map (\<lambda>i. case sub_container i of Some sc \<Rightarrow> [top_container_ref sc] | None \<Rightarrow> [])
                 (filter (\<lambda>i. instance_type i \<noteq> Some ''digital_object'') (instances record_json)))"

text \<open>The addresses of the GET requests of a trace, and the addresses of its POST requests.\<close>

fun got :: "occurrence list \<Rightarrow> string list" where
  "got [] = []"
| "got (Sent (GET u) # xs) = u # got xs"
| "got (x # xs) = got xs"

fun posted :: "occurrence list \<Rightarrow> string list" where
  "posted [] = []"
| "posted (Sent (POST u p) # xs) = u # posted xs"
| "posted (x # xs) = posted xs"

fun logged :: "occurrence list \<Rightarrow> error list" where
  "logged [] = []"
| "logged (Logged err # xs) = err # logged xs"
| "logged (x # xs) = logged xs"

section \<open>Sample inputs\<close>

text \<open>
  A remote side for the examples. It accepts the login, knows the repository \<open>BRBL\<close>
  as number 2, answers every request for a record with an archival object that is
  linked to the boxes 1 and 2, and refuses (status 500) to store a record whose title
  is \<open>bad\<close>; every other POST succeeds.
\<close>

definition sample_record :: archival_object where
  "sample_record =
     \<lparr>publish = True, title = ''Letters'', level = ''file'', component_id = ''old'',
      instances = [create_instance ''/c/1'', create_instance ''/c/2''],
      jsonmodel_type = ''archival_object'', resource = ''/repositories/2/resources/7'',
      parent = ''/repositories/2/archival_objects/4'', extents = [],
      ancestors = [''/repositories/2/resources/7'']\<rparr>"

definition sample_env :: env where
  "sample_env =
     \<lparr>login_reply = (\<lambda>tr. Response 200 ''token''),
      repositories_reply =
        (\<lambda>tr. Response 200 [\<lparr>repo_code = ''BRBL'', repo_uri = ''/repositories/2''\<rparr>]),
      record_reply = (\<lambda>tr. Response 200 sample_record),
      container_reply =
        (\<lambda>tr. if last tr = Sent (GET ''http://a/c/1'')
              then Response 200 \<lparr>uri = ''/c/1'', indicator = ''1''\<rparr>
              else Response 200 \<lparr>uri = ''/c/2'', indicator = ''2''\<rparr>),
      user_reply = (\<lambda>tr. Response 200 ''/agents/people/1''),
      search_reply = (\<lambda>tr. Response 200 \<lparr>total_hits = Some 0, results = []\<rparr>),
      post_reply =
        (\<lambda>tr. case last tr of
                Sent (POST u (Some (Record_payload ao))) \<Rightarrow>
                  if title ao = ''bad'' then Response 500 None
                  else Response 200 (Some ''/repositories/2/archival_objects/9'')
              | _ \<Rightarrow> Response 200 (Some ''/repositories/2/events/1''))\<rparr>"

definition sample_config :: config where
  "sample_config =
     \<lparr>cfg_api_url = ''http://a'', cfg_username = ''u'', cfg_password = ''p'',
      cfg_event_authorizer = None,
      cfg_network_drive_path = ''/m/aspace_spreadsheets_all_repos''\<rparr>"

text \<open>A row without container and without events, below the archival object 5.\<close>

definition sample_row :: row where
  "sample_row =
     \<lparr>Repository_Name = ''BRBL'',
      Parent_Record = ''http://a/resources/7#tree::archival_object_5'',
      Title = ''one'', Component_Unique_ID = ''c1'', Type_1 = [],
      Number_of_bytes = ''1,200'', Container_Summary = [], Top_Container = Some [],
      Event_Type_1 = Some [], Outcome_1 = [], Begin_1 = [], Outcome_Note_1 = [],
      Event_Type_2 = Some [], Outcome_2 = [], Begin_2 = [], Outcome_Note_2 = [],
      Event_Type_3 = Some [], Outcome_3 = [], Begin_3 = [], Outcome_Note_3 = [],
      New_Component_URI = None, Event_URI_1 = None, Event_URI_2 = None, Event_URI_3 = None\<rparr>"

text \<open>A file that is processed to its end.\<close>

definition good_file :: csv_file where
  "good_file =
     \<lparr>file_name = ''/m/aspace_spreadsheets_all_repos/create_1.csv'',
      file_rows = [sample_row]\<rparr>"

text \<open>A file whose second row the remote side refuses.\<close>

definition refused_file :: csv_file where
  "refused_file =
     \<lparr>file_name = ''/m/aspace_spreadsheets_all_repos/create_2.csv'',
      file_rows = [sample_row, sample_row\<lparr>Title := ''bad''\<rparr>, sample_row\<lparr>Title := ''three''\<rparr>]\<rparr>"

text \<open>A file whose rows are in the boxes 1, 2 and 2.\<close>

definition boxes_file :: csv_file where
  "boxes_file =
     \<lparr>file_name = ''/m/aspace_spreadsheets_all_repos/create_3.csv'',
      file_rows = [sample_row\<lparr>Top_Container := Some ''1''\<rparr>,
                   sample_row\<lparr>Top_Container := Some ''2''\<rparr>,
                   sample_row\<lparr>Top_Container := Some ''2''\<rparr>]\<rparr>"

text \<open>A file whose name says neither \<open>create\<close> nor \<open>update\<close>.\<close>

definition unnamed_file :: csv_file where
  "unnamed_file =
     \<lparr>file_name = ''/m/aspace_spreadsheets_all_repos/batch_4.csv'',
      file_rows = [sample_row]\<rparr>"

text \<open>
  A row with two events: the date of the first is \<open>13/45/2024\<close>, the date of the
  second is good.
\<close>

definition events_row :: row where
  "events_row =
     sample_row\<lparr>Event_Type_1 := Some ''Ingestion'', Outcome_1 := ''Pass'',
                 Begin_1 := ''13/45/2024'',
                 Event_Type_2 := Some ''Virus Check'', Outcome_2 := ''Pass'',
                 Begin_2 := ''03/04/2024''\<rparr>"

definition events_file :: csv_file where
  "events_file =
     \<lparr>file_name = ''/m/aspace_spreadsheets_all_repos/create_5.csv'',
      file_rows = [events_row]\<rparr>"

text \<open>A remote side whose records are linked to box 1 only.\<close>

definition one_box_record :: archival_object where
  "one_box_record = sample_record\<lparr>instances := [create_instance ''/c/1'']\<rparr>"

definition one_box_env :: env where
  "one_box_env = sample_env\<lparr>record_reply := (\<lambda>tr. Response 200 one_box_record)\<rparr>"

text \<open>The variables of \<open>main\<close> while it reads a file that creates records.\<close>

definition sample_vars :: file_vars where
  "sample_vars =
     \<lparr>api_url_of = ''http://a'',
      input_csv_file = ''/m/aspace_spreadsheets_all_repos/create_1.csv'',
      output_csv_file = ''/m/aspace_spreadsheets_all_repos/outputs/create_1_out.csv'',
      action_of = Some create_archival_object_fn, repo_identifier = Some ''2'',
      agent_uri_of = Some ''/agents/people/1'', previous_container = []\<rparr>"

section \<open>Properties of the string functions\<close>

lemma str_in_self: "str_in sub (sub @ b)"
proof (cases "sub @ b")
  case Nil
  then show ?thesis by simp
next
  case (Cons x xs)
  have "prefix sub (sub @ b)" by simp
  with Cons show ?thesis by simp
qed

lemma str_in_append: "str_in sub (a @ sub @ b)"
  by (induction a) (auto simp: str_in_self)

lemma rpartition_absent:
  "c \<notin> set q \<Longrightarrow> str_rpartition [c] q = ([], [], q)"
  by (induction q) auto

lemma rpartition_char:
  "str_rpartition [c] r = (a, m, b) \<Longrightarrow>
     (m = [] \<and> a = [] \<and> b = r \<and> c \<notin> set r) \<or> (m = [c] \<and> r = a @ [c] @ b \<and> c \<notin> set b)"
proof (induction r arbitrary: a m b)
  case Nil
  then show ?case by simp
next
  case (Cons x r)
  obtain a' m' b' where rec: "str_rpartition [c] r = (a', m', b')"
    by (cases "str_rpartition [c] r") auto
  from Cons.IH [OF rec] Cons.prems rec show ?case
    by (auto split: if_splits)
qed

lemma record_id_empty_iff:
  "record_id_of r = [] \<longleftrightarrow> r = [] \<or> (\<exists>p. r = p @ ''_'')"
proof -
  obtain a m b where rp: "str_rpartition ''_'' r = (a, m, b)"
    by (cases "str_rpartition ''_'' r") auto
  have id: "record_id_of r = b"
    by (simp add: record_id_of_def part2_def rp)
  from rpartition_char [OF rp]
  consider "m = []" "a = []" "b = r" "CHR ''_'' \<notin> set r"
    | "m = ''_''" "r = a @ ''_'' @ b" "CHR ''_'' \<notin> set b"
    by auto
  then show ?thesis
  proof cases
    case 1
    then show ?thesis using id by auto
  next
    case 2
    show ?thesis
    proof
      assume "record_id_of r = []"
      with id 2 show "r = [] \<or> (\<exists>p. r = p @ ''_'')" by auto
    next
      assume "r = [] \<or> (\<exists>p. r = p @ ''_'')"
      with 2 obtain p where p: "a @ ''_'' @ b = p @ ''_''" by auto
      have "b = []"
      proof (rule ccontr)
        assume "b \<noteq> []"
        then have l: "last (a @ ''_'' @ b) = last b" by simp
        have r: "last (p @ ''_'') = CHR ''_''" by simp
        have "last (a @ ''_'' @ b) = last (p @ ''_'')" by (rule arg_cong [OF p])
        then have "last b = CHR ''_''" unfolding l r .
        with \<open>b \<noteq> []\<close> have "CHR ''_'' \<in> set b" using last_in_set by metis
        with 2 show False by simp
      qed
      with id show "record_id_of r = []" by simp
    qed
  qed
qed

lemma record_id_whole:
  "CHR ''_'' \<notin> set r \<Longrightarrow> record_id_of r = r"
  by (simp add: record_id_of_def part2_def rpartition_absent)

lemma partition_slash_hash:
  "CHR ''#'' \<notin> set a \<Longrightarrow> str_partition ''/#'' (a @ ''/#'' @ b) = (a, ''/#'', b)"
proof (induction a)
  case Nil
  show ?case by simp
next
  case (Cons c a)
  then have "\<not> prefix ''/#'' (c # a @ ''/#'' @ b)"
    by (cases a) auto
  with Cons show ?case by simp
qed

lemma partition_hash:
  "CHR ''#'' \<notin> set a \<Longrightarrow> str_partition ''#'' (a @ ''#'' @ b) = (a, ''#'', b)"
  by (induction a) auto

lemma rpartition_last:
  "c \<notin> set q \<Longrightarrow> str_rpartition [c] (p @ [c] @ q) = (p, [c], q)"
  by (induction p) (auto simp: rpartition_absent)

lemma str_in_slash_hash_bare:
  "CHR ''#'' \<notin> set a \<Longrightarrow> a \<noteq> [] \<Longrightarrow> last a \<noteq> CHR ''/'' \<Longrightarrow>
   str_in ''/#'' (a @ ''#'' @ b) = str_in ''/#'' b"
proof (induction a)
  case Nil
  then show ?case by simp
next
  case (Cons c a)
  show ?case
  proof (cases a)
    case Nil
    with Cons.prems show ?thesis by auto
  next
    case (Cons d a')
    with Cons.prems Cons.IH show ?thesis by auto
  qed
qed

lemma replace_single_empty: "replace_from 0 [c] [] s = filter (\<lambda>x. x \<noteq> c) s"
  by (induction s) auto

lemma str_replace_strip: "str_replace [c] [] s = filter (\<lambda>x. x \<noteq> c) s"
  by (simp add: str_replace_def replace_single_empty)

text \<open>
  C8. \<open>set_resource\<close> handles both shapes of the parent-record URL. For a path
  \<open>p/q\<close> without \<open>#\<close> whose last component \<open>q\<close> has no slash, the result is \<open>q\<close> when
  the fragment is introduced by \<open>/#\<close>, and when it is introduced by a bare \<open>#\<close> (the
  component is then not empty, and the fragment does not contain \<open>/#\<close> itself); the two
  URLs of the specification both give \<open>77\<close>.
\<close>

theorem set_resource_both_shapes:
  assumes "CHR ''#'' \<notin> set p" and "CHR ''#'' \<notin> set q" and "CHR ''/'' \<notin> set q"
  shows "set_resource (p @ ''/'' @ q @ ''/#'' @ frag) = q
       \<and> (q \<noteq> [] \<and> \<not> str_in ''/#'' frag \<longrightarrow> set_resource (p @ ''/'' @ q @ ''#'' @ frag) = q)
       \<and> set_resource ''.../repositories/2/resources/77#tree::archival_object_123'' = ''77''
       \<and> set_resource ''.../repositories/2/resources/77/#tree'' = ''77''"
proof -
  let ?a = "p @ ''/'' @ q"
  have na: "CHR ''#'' \<notin> set ?a" using assms by simp
  have seg: "part2 (str_rpartition ''/'' ?a) = q"
    using rpartition_last [OF assms(3), of p] by (simp add: part2_def)
  have one: "set_resource (p @ ''/'' @ q @ ''/#'' @ frag) = q"
  proof -
    have "str_in ''/#'' (?a @ ''/#'' @ frag)" by (rule str_in_append)
    moreover have "part0 (str_partition ''/#'' (?a @ ''/#'' @ frag)) = ?a"
      using partition_slash_hash [OF na, of frag] by (simp add: part0_def)
    ultimately have "set_resource (?a @ ''/#'' @ frag) = q"
      using seg unfolding set_resource_def by simp
    then show ?thesis by simp
  qed
  have two: "set_resource (p @ ''/'' @ q @ ''#'' @ frag) = q" if "q \<noteq> []" and "\<not> str_in ''/#'' frag"
  proof -
    have "last q \<in> set q" using that(1) by (rule last_in_set)
    then have "last q \<noteq> CHR ''/''" using assms(3) by auto
    then have "last ?a \<noteq> CHR ''/''" using that(1) by simp
    then have "str_in ''/#'' (?a @ ''#'' @ frag) = str_in ''/#'' frag"
      using str_in_slash_hash_bare [OF na, of frag] by simp
    then have "\<not> str_in ''/#'' (?a @ ''#'' @ frag)" using that(2) by simp
    moreover have "part0 (str_partition ''#'' (?a @ ''#'' @ frag)) = ?a"
      using partition_hash [OF na, of frag] by (simp add: part0_def)
    ultimately have "set_resource (?a @ ''#'' @ frag) = q"
      using seg unfolding set_resource_def by simp
    then show ?thesis by simp
  qed
  have ex1: "set_resource ''.../repositories/2/resources/77#tree::archival_object_123'' = ''77''"
    by code_simp
  have ex2: "set_resource ''.../repositories/2/resources/77/#tree'' = ''77''"
    by code_simp
  from one two ex1 ex2 show ?thesis by blast
qed

theorem set_resource_both_shapes_witness:
  "set_resource (''https://aspace.example.org/resources'' @ ''/'' @ ''77'' @ ''/#'' @ ''tree'') = ''77''
   \<and> set_resource (''https://aspace.example.org/resources'' @ ''/'' @ ''77'' @ ''#'' @ ''tree::archival_object_123'') = ''77''"
proof -
  have a: "CHR ''#'' \<notin> set ''https://aspace.example.org/resources''" by simp
  have b: "CHR ''#'' \<notin> set ''77''" by simp
  have c: "CHR ''/'' \<notin> set ''77''" by simp
  have d: "''77'' \<noteq> [] \<and> \<not> str_in ''/#'' ''tree::archival_object_123''" by code_simp
  from set_resource_both_shapes [OF a b c, of "''tree''"]
       set_resource_both_shapes [OF a b c, of "''tree::archival_object_123''"] d
  show ?thesis by blast
qed

text \<open>
  C7. \<open>update_extents\<close> returns the typed entry (number \<open>1\<close>) exactly when \<open>Type_1\<close> is
  not empty, followed by the bytes entry exactly when \<open>Number_of_bytes\<close> is not empty, so
  at most two entries; the bytes entry has the byte count without its commas; the
  container summary, when not empty, is on the bytes entry and never on the typed one.
  The two examples of the specification follow.
\<close>

theorem update_extents_entries:
  "update_extents r =
     (if Type_1 r = [] then []
      else [\<lparr>number = ''1'', portion = ''whole'', extent_type = Type_1 r,
             extent_jsonmodel_type = ''extent'', container_summary = None\<rparr>])
     @ (if Number_of_bytes r = [] then []
        else [\<lparr>number = filter (\<lambda>c. c \<noteq> CHR '','') (Number_of_bytes r), portion = ''whole'',
               extent_type = ''bytes'', extent_jsonmodel_type = ''extent'',
               container_summary =
                 (if Container_Summary r = [] then None else Some (Container_Summary r))\<rparr>])
   \<and> length (update_extents r) \<le> 2
   \<and> update_extents (r\<lparr>Type_1 := ''linear feet'', Number_of_bytes := []\<rparr>) =
       [\<lparr>number = ''1'', portion = ''whole'', extent_type = ''linear feet'',
         extent_jsonmodel_type = ''extent'', container_summary = None\<rparr>]
   \<and> update_extents (r\<lparr>Type_1 := [], Number_of_bytes := ''1,200'',
                        Container_Summary := ''folder A''\<rparr>) =
       [\<lparr>number = ''1200'', portion = ''whole'', extent_type = ''bytes'',
         extent_jsonmodel_type = ''extent'', container_summary = Some ''folder A''\<rparr>]"
  by (simp add: update_extents_def first_extent_def second_extent_def str_replace_strip Let_def)

text \<open>
  C2. \<open>check_dates\<close> on the examples of the specification. The three supported examples give
  \<open>2024-03-04\<close>. \<open>13/45/2024\<close> has the shape \<open>MM/DD/YYYY\<close> and is no date: \<open>strptime\<close>
  raises \<open>ValueError\<close>, which \<open>check_dates\<close> does not turn into a
  \<open>DataValidationError\<close>; and \<open>2024-03-04\<close>, hyphenated and of length 10, falls through
  the function, which returns \<open>None\<close> and raises nothing.
\<close>

theorem check_dates_examples:
  "check_dates ''03/04/2024'' = Inr (Some ''2024-03-04'')
   \<and> check_dates ''03/04/24'' = Inr (Some ''2024-03-04'')
   \<and> check_dates ''2024/03/04'' = Inr (Some ''2024-03-04'')
   \<and> check_dates ''13/45/2024'' = Inl ValueError
   \<and> check_dates ''2024-03-04'' = Inr None"
  by code_simp

text \<open>A text with neither \<open>/\<close> nor \<open>-\<close> does raise \<open>DataValidationError\<close>.\<close>

lemma check_dates_no_separator:
  "CHR ''/'' \<notin> set d \<Longrightarrow> CHR ''-'' \<notin> set d \<Longrightarrow>
   check_dates d = Inl (DataValidationError (Some d) ''YYYY-MM-DD'')"
  by (simp add: check_dates_def)

text \<open>
  C9. For a date with a hyphen, without a slash and of length 10 or more,
  \<open>check_dates\<close> returns \<open>None\<close> and raises nothing; \<open>create_event\<close> returns the event
  with \<open>None\<close> as its begin date, and the first thing \<open>event_helper\<close> does is to post
  that event.
\<close>

theorem long_hyphen_date_is_posted_without_begin:
  assumes "CHR ''-'' \<in> set d" and "CHR ''/'' \<notin> set d" and "10 \<le> length d"
  shows "check_dates d = Inr None
     \<and> create_event agent ao repo t oc d n st =
         (Inr (Some
            \<lparr>event_type = str_lower t, event_jsonmodel_type = ''event'',
             outcome = str_lower oc, outcome_note = n,
             linked_agents = [\<lparr>role = ''authorizer'', ref = agent\<rparr>],
             linked_records =
               [\<lparr>role = ''source'',
                 ref = Some (''/repositories/'' @ fstr repo @ ''/archival_objects/'' @ fstr ao)\<rparr>],
             date = \<lparr>date_begin = None, date_type = ''single'', label = ''event'',
                     date_jsonmodel_type = ''date''\<rparr>\<rparr>), st)
     \<and> trace (snd (event_helper e api agent ao repo t oc d n st)) ! length (trace st) =
         Sent (POST (api @ ''/repositories/'' @ fstr repo @ ''/events'')
           (Some (Event_payload
             \<lparr>event_type = str_lower t, event_jsonmodel_type = ''event'',
              outcome = str_lower oc, outcome_note = n,
              linked_agents = [\<lparr>role = ''authorizer'', ref = agent\<rparr>],
              linked_records =
                [\<lparr>role = ''source'',
                  ref = Some (''/repositories/'' @ fstr repo @ ''/archival_objects/'' @ fstr ao)\<rparr>],
              date = \<lparr>date_begin = None, date_type = ''single'', label = ''event'',
                      date_jsonmodel_type = ''date''\<rparr>\<rparr>)))"
proof -
  have cd: "check_dates d = Inr None"
    using assms by (simp add: check_dates_def)
  then have ce: "create_event agent ao repo t oc d n st =
         (Inr (Some
            \<lparr>event_type = str_lower t, event_jsonmodel_type = ''event'',
             outcome = str_lower oc, outcome_note = n,
             linked_agents = [\<lparr>role = ''authorizer'', ref = agent\<rparr>],
             linked_records =
               [\<lparr>role = ''source'',
                 ref = Some (''/repositories/'' @ fstr repo @ ''/archival_objects/'' @ fstr ao)\<rparr>],
             date = \<lparr>date_begin = None, date_type = ''single'', label = ''event'',
                     date_jsonmodel_type = ''date''\<rparr>\<rparr>), st)"
    by (simp add: create_event_def)
  show ?thesis
    apply (intro conjI cd ce)
    apply (simp add: event_helper_def ce post_record_def send_def emit_def Let_def
                split: reply.splits)
    done
qed

theorem long_hyphen_date_is_posted_without_begin_witness:
  "check_dates ''2024-03-04'' = Inr None
   \<and> date_begin (date (the (projr (fst (create_event None None None ''Ingestion'' ''Pass''
        ''2024-03-04'' [] initial))))) = None"
proof -
  have a: "CHR ''-'' \<in> set ''2024-03-04''" by simp
  have b: "CHR ''/'' \<notin> set ''2024-03-04''" by simp
  have c: "10 \<le> length ''2024-03-04''" by simp
  from long_hyphen_date_is_posted_without_begin [OF a b c, of None None None "''Ingestion''"
         "''Pass''" "[]" initial]
  show ?thesis by simp
qed

section \<open>Steps below the row loop\<close>

text \<open>
  Each function below the row loop only adds requests, log entries and backups to the
  trace: it writes no output row, classifies no file and skips no row.
\<close>

lemma advances_refl: "advances st st"
  by (simp add: advances_def unskipped_def)

lemma advances_Logged: "advances st0 st \<Longrightarrow> advances st0 (emit (Logged x) st)"
  by (auto simp: advances_def unskipped_def emit_def)

lemma advances_Sent: "advances st0 st \<Longrightarrow> advances st0 (emit (Sent x) st)"
  by (auto simp: advances_def unskipped_def emit_def)

lemma advances_Backup: "advances st0 st \<Longrightarrow> advances st0 (emit (Backup u x) st)"
  by (auto simp: advances_def unskipped_def emit_def)

lemma advances_var_container_list:
  "advances st0 st \<Longrightarrow> advances st0 (st\<lparr>var_container_list := v\<rparr>)"
  by (simp add: advances_def unskipped_def)

lemma advances_var_record_json_endpoint:
  "advances st0 st \<Longrightarrow> advances st0 (st\<lparr>var_record_json_endpoint := v\<rparr>)"
  by (simp add: advances_def unskipped_def)

lemma advances_var_row_bound:
  "advances st0 st \<Longrightarrow> advances st0 (st\<lparr>var_row_bound := v\<rparr>)"
  by (simp add: advances_def unskipped_def)

lemmas advances_basic = advances_Logged advances_Sent advances_Backup
  advances_var_container_list advances_var_record_json_endpoint advances_var_row_bound

lemma advances_send:
  "send oracle rq st = (r, st') \<Longrightarrow> advances st0 st \<Longrightarrow> advances st0 st'"
  by (auto simp: send_def Let_def intro: advances_basic)

lemma advances_get_record:
  "get_record sesh url st = (r, st') \<Longrightarrow> advances st0 st \<Longrightarrow> advances st0 st'"
  by (auto simp: get_record_def split: prod.splits reply.splits if_splits) (blast intro: advances_send)+

lemma advances_post_record:
  "post_record sesh url p st = (r, st') \<Longrightarrow> advances st0 st \<Longrightarrow> advances st0 st'"
  by (auto simp: post_record_def split: prod.splits reply.splits if_splits) (blast intro: advances_send)+

lemma advances_generate_loop:
  "generate_loop e api us b cs st = (r, st') \<Longrightarrow> advances st0 st \<Longrightarrow> advances st0 st'"
proof (induction us arbitrary: b cs st)
  case Nil
  then show ?case by simp
next
  case (Cons u us)
  from Cons.prems show ?case
    by (auto split: prod.splits sum.splits if_splits)
       (blast intro: Cons.IH advances_get_record advances_basic)+
qed

lemma advances_generate_container_list:
  "generate_container_list e api p st = (r, st') \<Longrightarrow> advances st0 st \<Longrightarrow> advances st0 st'"
  by (auto simp: generate_container_list_def split: sum.splits if_splits
           intro: advances_generate_loop)

lemma advances_get_instance_data:
  "get_instance_data e api p st = (r, st') \<Longrightarrow> advances st0 st \<Longrightarrow> advances st0 st'"
  by (auto simp: get_instance_data_def Let_def split: prod.splits sum.splits if_splits)
     (blast intro: advances_generate_container_list advances_basic)+

lemma advances_get_containers:
  "get_containers e api p repo st = (r, st') \<Longrightarrow> advances st0 st \<Longrightarrow> advances st0 st'"
  by (auto simp: get_containers_def Let_def split: prod.splits sum.splits if_splits list.splits)
     (blast intro: advances_get_instance_data advances_get_record advances_basic)+

lemma advances_get_matched_containers:
  "get_matched_containers cl n st = (r, st') \<Longrightarrow> advances st0 st \<Longrightarrow> advances st0 st'"
  by (auto simp: get_matched_containers_def split: sum.splits option.splits
           intro: advances_basic)

lemma advances_get_repositories:
  "get_repositories e api st = (r, st') \<Longrightarrow> advances st0 st \<Longrightarrow> advances st0 st'"
  by (auto simp: get_repositories_def split: prod.splits sum.splits if_splits)
     (blast intro: advances_get_record)+

lemma advances_set_repository:
  "set_repository e fr api st = (r, st') \<Longrightarrow> advances st0 st \<Longrightarrow> advances st0 st'"
  by (auto simp: set_repository_def split: prod.splits sum.splits option.splits)
     (blast intro: advances_get_repositories)+

lemma advances_get_repo:
  "get_repo e fr api st = (r, st') \<Longrightarrow> advances st0 st \<Longrightarrow> advances st0 st'"
  by (auto simp: get_repo_def split: prod.splits sum.splits if_splits)
     (blast intro: advances_set_repository advances_basic)+

lemma advances_get_current_user:
  "get_current_user e api st = (r, st') \<Longrightarrow> advances st0 st \<Longrightarrow> advances st0 st'"
  by (auto simp: get_current_user_def split: prod.splits reply.splits)
     (blast intro: advances_send)+

lemma advances_set_agent:
  "set_agent e api a u st = (r, st') \<Longrightarrow> advances st0 st \<Longrightarrow> advances st0 st'"
  by (auto simp: set_agent_def split: prod.splits reply.splits if_splits list.splits option.splits)
     (blast intro: advances_send advances_get_current_user)+

lemma advances_get_agent:
  "get_agent e api a u st = (r, st') \<Longrightarrow> advances st0 st \<Longrightarrow> advances st0 st'"
  by (auto simp: get_agent_def split: prod.splits sum.splits if_splits)
     (blast intro: advances_set_agent advances_basic)+

lemma advances_update_archival_object:
  "update_archival_object e api row ao repo st = (r, st') \<Longrightarrow> advances st0 st \<Longrightarrow> advances st0 st'"
  by (auto simp: update_archival_object_def Let_def
           split: prod.splits sum.splits if_splits option.splits)
     (blast intro: advances_get_record advances_basic)+

lemma advances_create_event:
  "create_event a ao repo t oc d n st = (r, st') \<Longrightarrow> advances st0 st \<Longrightarrow> advances st0 st'"
  by (auto simp: create_event_def split: sum.splits if_splits intro: advances_basic)

lemma advances_event_helper:
  "event_helper e api a ru repo t oc d n st = (r, st') \<Longrightarrow> advances st0 st \<Longrightarrow> advances st0 st'"
  by (auto simp: event_helper_def Let_def split: prod.splits sum.splits if_splits option.splits)
     (blast intro: advances_create_event advances_post_record advances_basic)+

lemma advances_post_slot:
  "post_slot e api a ru repo key t oc d n eu st = (r, st') \<Longrightarrow> advances st0 st
   \<Longrightarrow> advances st0 st'"
  by (auto simp: post_slot_def split: prod.splits sum.splits if_splits option.splits)
     (blast intro: advances_event_helper)+

lemma advances_post_events:
  "post_events e row a repo ru api st = (r, st') \<Longrightarrow> advances st0 st \<Longrightarrow> advances st0 st'"
  by (auto simp: post_events_def Let_def split: prod.splits sum.splits if_splits)
     (blast intro: advances_post_slot advances_basic)+

lemma advances_start_session:
  "start_session e url u p st = (r, st') \<Longrightarrow> advances st0 st \<Longrightarrow> advances st0 st'"
  by (auto simp: start_session_def split: prod.splits reply.splits if_splits)
     (blast intro: advances_send)+

lemma advances_get_session:
  "get_session e url u p st = (r, st') \<Longrightarrow> advances st0 st \<Longrightarrow> advances st0 st'"
  by (auto simp: get_session_def split: prod.splits sum.splits if_splits)
     (blast intro: advances_start_session advances_basic)+

lemma advances_get_action:
  "get_action f st = (r, st') \<Longrightarrow> advances st0 st \<Longrightarrow> advances st0 st'"
  by (auto simp: get_action_def split: sum.splits intro: advances_basic)

lemma advances_container_step:
  "container_step e c rid row st = (r, st') \<Longrightarrow> advances st0 st \<Longrightarrow> advances st0 st'"
  by (auto simp: container_step_def split: prod.splits sum.splits if_splits option.splits)
     (blast intro: advances_get_containers advances_get_matched_containers advances_basic)+

lemma advances_build_step:
  "build_step e c rid res row st = (r, st') \<Longrightarrow> advances st0 st \<Longrightarrow> advances st0 st'"
  by (auto simp: build_step_def split: prod.splits sum.splits option.splits action.splits)
     (blast intro: advances_update_archival_object advances_basic)+

subsection \<open>The loop only adds to what is recorded\<close>

lemma results_of_append_result:
  "results_of k (append_result key v d) =
     (if k = key then results_of k d @ [v] else results_of k d)"
  by (induction d) (auto simp: results_of_def)

lemma extends_refl: "extends st st"
  by (simp add: extends_def)

lemma advances_extends:
  "advances st st' \<Longrightarrow> extends st0 st \<Longrightarrow> extends st0 st'"
  by (auto simp: advances_def unskipped_def extends_def intro: prefix_order.trans)

lemma extends_Logged: "extends st0 st \<Longrightarrow> extends st0 (emit (Logged x) st)"
  by (auto simp: extends_def emit_def intro: prefix_order.trans)

lemma extends_Skipped: "extends st0 st \<Longrightarrow> extends st0 (emit (Skipped x) st)"
  by (auto simp: extends_def emit_def intro: prefix_order.trans)

lemma extends_var_row_bound: "extends st0 st \<Longrightarrow> extends st0 (st\<lparr>var_row_bound := b\<rparr>)"
  by (simp add: extends_def)

lemma extends_file_results:
  "extends st0 st \<Longrightarrow> extends st0 (st\<lparr>file_results := append_result key v (file_results st)\<rparr>)"
  by (auto simp: extends_def results_of_append_result intro: prefix_order.trans)

lemma extends_outputs:
  "extends st0 st \<Longrightarrow> extends st0 (st\<lparr>outputs := (outputs st)(n := outputs st n @ ls)\<rparr>)"
  by (auto simp: extends_def intro: prefix_order.trans)

lemma extends_emit_file_results:
  "extends st0 st \<Longrightarrow>
   extends st0 ((emit (Logged x) st)\<lparr>file_results := append_result key v (file_results st)\<rparr>)"
  by (auto simp: extends_def emit_def results_of_append_result intro: prefix_order.trans)

lemmas extends_basic = extends_Logged extends_Skipped extends_var_row_bound
  extends_file_results extends_outputs extends_emit_file_results

lemma extends_by:
  "advances st st' \<Longrightarrow> extends st0 st \<Longrightarrow> extends st0 st'"
  by (rule advances_extends)

lemma extends_post_step:
  "post_step e c row st = (r, st') \<Longrightarrow> extends st0 st \<Longrightarrow> extends st0 st'"
  by (auto simp: post_step_def Let_def split: prod.splits sum.splits if_splits option.splits)
     (blast intro: extends_by [OF advances_post_record [OF _ advances_refl]]
                   extends_by [OF advances_post_events [OF _ advances_refl]] extends_basic)+

lemma extends_row_body:
  "row_body e c row st = (r, st') \<Longrightarrow> extends st0 st \<Longrightarrow> extends st0 st'"
  by (auto simp: row_body_def Let_def split: prod.splits sum.splits if_splits)
     (blast intro: extends_by [OF advances_container_step [OF _ advances_refl]]
                   extends_by [OF advances_build_step [OF _ advances_refl]]
                   extends_post_step extends_basic)+

lemma extends_process_rows:
  "process_rows e c rows st = (r, st') \<Longrightarrow> extends st0 st \<Longrightarrow> extends st0 st'"
proof (induction rows arbitrary: st)
  case Nil
  then show ?case by simp
next
  case (Cons row rows)
  from Cons.prems show ?case
    by (auto split: prod.splits sum.splits flow.splits)
       (blast intro: Cons.IH extends_row_body)+
qed

section \<open>The row loop\<close>

subsection \<open>Rows that are not skipped\<close>

lemma unskipped_refl: "unskipped st st"
  by (simp add: unskipped_def)

lemma unskipped_by:
  "advances st st' \<Longrightarrow> unskipped st0 st \<Longrightarrow> unskipped st0 st'"
  by (auto simp: advances_def unskipped_def)

lemma unskipped_Logged: "unskipped st0 st \<Longrightarrow> unskipped st0 (emit (Logged x) st)"
  by (auto simp: unskipped_def emit_def)

lemma unskipped_var_row_bound: "unskipped st0 st \<Longrightarrow> unskipped st0 (st\<lparr>var_row_bound := b\<rparr>)"
  by (simp add: unskipped_def)

lemma unskipped_file_results: "unskipped st0 st \<Longrightarrow> unskipped st0 (st\<lparr>file_results := d\<rparr>)"
  by (simp add: unskipped_def)

lemma unskipped_outputs: "unskipped st0 st \<Longrightarrow> unskipped st0 (st\<lparr>outputs := d\<rparr>)"
  by (simp add: unskipped_def)

lemma unskipped_emit_file_results:
  "unskipped st0 st \<Longrightarrow> unskipped st0 ((emit (Logged x) st)\<lparr>file_results := d\<rparr>)"
  by (auto simp: unskipped_def emit_def)

lemmas unskipped_basic = unskipped_Logged unskipped_var_row_bound unskipped_file_results
  unskipped_outputs unskipped_emit_file_results

lemma unskipped_post_step:
  "post_step e c row st = (r, st') \<Longrightarrow> unskipped st0 st \<Longrightarrow> unskipped st0 st'"
  by (auto simp: post_step_def Let_def split: prod.splits sum.splits if_splits option.splits)
     (blast intro: unskipped_by [OF advances_post_record [OF _ advances_refl]]
                   unskipped_by [OF advances_post_events [OF _ advances_refl]] unskipped_basic)+

lemma unskipped_row_body:
  assumes "record_id_of (Parent_Record row) \<noteq> []"
    and "row_body e c row st = (r, st')"
  shows "unskipped st st'"
proof -
  have start: "unskipped st (st\<lparr>var_row_bound := True\<rparr>)"
    by (rule unskipped_var_row_bound [OF unskipped_refl])
  from assms show ?thesis
    by (auto simp: row_body_def Let_def split: prod.splits sum.splits)
       (blast intro: start unskipped_by [OF advances_container_step [OF _ advances_refl]]
                     unskipped_by [OF advances_build_step [OF _ advances_refl]]
                     unskipped_post_step)+
qed

lemma skipped_row_is_not_unskipped:
  "\<not> unskipped st (emit (Skipped r) (st\<lparr>var_row_bound := True\<rparr>))"
  by (auto simp: unskipped_def emit_def)

lemma update_first_request:
  "trace (snd (update_archival_object e api r ao_id repo st)) ! length (trace st) =
     Sent (GET (api @ ''/repositories/'' @ fstr repo @ ''/archival_objects/'' @ ao_id))"
  by (auto simp: update_archival_object_def get_record_def send_def emit_def Let_def nth_append
           split: reply.splits sum.splits option.splits)

subsection \<open>Where the identifier of a row goes\<close>

lemma prefix_trace_by_advances: "advances st st' \<Longrightarrow> prefix (trace st) (trace st')"
  by (auto simp: advances_def unskipped_def)

lemma prefix_trace_by_extends: "extends st st' \<Longrightarrow> prefix (trace st) (trace st')"
  by (simp add: extends_def)

lemma prefix_trace_post_step:
  "prefix (trace st) (trace (snd (post_step e c r st)))"
  by (rule prefix_trace_by_extends [OF extends_post_step [OF _ extends_refl]])
     (rule surjective_pairing)

lemma prefix_trace_get_matched_containers:
  "prefix (trace st) (trace (snd (get_matched_containers cl n st)))"
  by (rule prefix_trace_by_advances [OF advances_get_matched_containers [OF _ advances_refl]])
     (rule surjective_pairing)

lemma prefix_trace_post_events:
  "prefix (trace st) (trace (snd (post_events e r a repo ru api st)))"
  by (rule prefix_trace_by_advances [OF advances_post_events [OF _ advances_refl]])
     (rule surjective_pairing)

lemma get_record_first_request:
  "prefix (trace st @ [Sent (GET url)]) (trace (snd (get_record sesh url st)))"
  by (simp add: get_record_def send_def emit_def Let_def split: reply.splits)

lemma get_record_trace:
  "trace (snd (get_record sesh url st)) = trace st @ [Sent (GET url)]"
  by (simp add: get_record_def send_def emit_def Let_def split: reply.splits)

lemma update_sends_fetch:
  "prefix (trace st @ [Sent (GET (api @ ''/repositories/'' @ fstr repo @ ''/archival_objects/''
             @ ao_id))])
          (trace (snd (update_archival_object e api r ao_id repo st)))"
  by (auto simp: update_archival_object_def get_record_def send_def emit_def Let_def
           split: reply.splits sum.splits option.splits)

lemma get_containers_sends_fetch:
  "prefix (trace st @ [Sent (GET (api @ ''/repositories/'' @ fstr repo @ ''/archival_objects/''
             @ parent_id))])
          (trace (snd (get_containers e api parent_id repo st)))"
proof -
  let ?url = "api @ ''/repositories/'' @ fstr repo @ ''/archival_objects/'' @ parent_id"
  obtain r1 st1 where gr: "get_record (record_reply e) ?url st = (r1, st1)"
    by (cases "get_record (record_reply e) ?url st") auto
  have t1: "trace st1 = trace st @ [Sent (GET ?url)]"
    using get_record_trace [of "record_reply e" ?url st] gr by simp
  obtain r st' where gc: "get_containers e api parent_id repo st = (r, st')"
    by (cases "get_containers e api parent_id repo st") auto
  have "advances st1 st'"
    using gc gr
    by (auto simp: get_containers_def Let_def
             split: prod.splits sum.splits if_splits list.splits)
       (blast intro: advances_refl advances_get_instance_data advances_get_record
                     advances_basic)+
  then have "prefix (trace st1) (trace st')"
    by (rule prefix_trace_by_advances)
  with t1 gc show ?thesis by simp
qed

lemma post_step_sends_record:
  assumes "var_record_json_endpoint st = Some (record_json, endpoint)"
  shows "prefix (trace st @ [Sent (POST (api_url_of c @ endpoint)
                               (Some (Record_payload record_json)))])
                (trace (snd (post_step e c r st)))"
proof -
  let ?rq = "Sent (POST (api_url_of c @ endpoint) (Some (Record_payload record_json)))"
  obtain r1 st1 where pr: "post_record (post_reply e) (api_url_of c @ endpoint)
                              (Record_payload record_json) st = (r1, st1)"
    by (cases "post_record (post_reply e) (api_url_of c @ endpoint)
                 (Record_payload record_json) st") auto
  have t1: "trace st1 = trace st @ [?rq]"
    using pr by (auto simp: post_record_def send_def emit_def Let_def
                      split: reply.splits if_splits)
  show ?thesis
  proof (cases r1)
    case (Inl err)
    with assms pr t1 show ?thesis
      by (simp add: post_step_def Let_def emit_def)
  next
    case (Inr u)
    have "prefix (trace st1)
            (trace (snd (post_events e (r\<lparr>New_Component_URI := u\<rparr>) (agent_uri_of c)
                           (repo_identifier c) u (api_url_of c) st1)))"
      by (rule prefix_trace_post_events)
    with assms pr t1 Inr show ?thesis
      by (auto simp: post_step_def Let_def emit_def
               split: prod.splits sum.splits option.splits
               intro: prefix_order.trans)
  qed
qed

lemma created_record_is_posted:
  assumes "action_of c = Some create_archival_object_fn"
    and "record_id_of (Parent_Record r) = rid" and "rid \<noteq> []"
    and "container_step e c rid r (st\<lparr>var_row_bound := True\<rparr>) = (Inr r1, st1)"
  shows "\<exists>ao. prefix (trace st1
                   @ [Sent (POST (api_url_of c @ ''/repositories/'' @ fstr (repo_identifier c)
                                  @ ''/archival_objects'') (Some (Record_payload ao)))])
                  (trace (snd (row_body e c r st)))
            \<and> parent ao = ''/repositories/'' @ fstr (repo_identifier c)
                           @ ''/archival_objects/'' @ rid"
proof -
  let ?p = "create_archival_object r1 (repo_identifier c) rid (set_resource (Parent_Record r))"
  let ?st2 = "st1\<lparr>var_record_json_endpoint := Some ?p\<rparr>"
  have rb: "row_body e c r st = post_step e c r1 ?st2"
    using assms by (simp add: row_body_def Let_def build_step_def)
  have ep: "snd ?p = ''/repositories/'' @ fstr (repo_identifier c) @ ''/archival_objects''"
    by (simp add: create_archival_object_def Let_def)
  have pa: "parent (fst ?p) = ''/repositories/'' @ fstr (repo_identifier c)
                           @ ''/archival_objects/'' @ rid"
    by (simp add: create_archival_object_def Let_def split: option.splits)
  have "var_record_json_endpoint ?st2 = Some (fst ?p, snd ?p)" by simp
  from post_step_sends_record [OF this, of c e r1]
  have "prefix (trace st1 @ [Sent (POST (api_url_of c @ snd ?p) (Some (Record_payload (fst ?p))))])
               (trace (snd (row_body e c r st)))"
    by (simp add: rb)
  with ep pa show ?thesis by (intro exI [of _ "fst ?p"]) simp
qed

lemma updated_record_is_fetched:
  assumes "action_of c = Some update_archival_object_fn"
    and "record_id_of (Parent_Record r) = rid" and "rid \<noteq> []"
    and "container_step e c rid r (st\<lparr>var_row_bound := True\<rparr>) = (Inr r1, st1)"
  shows "prefix (trace st1
                   @ [Sent (GET (api_url_of c @ ''/repositories/'' @ fstr (repo_identifier c)
                                 @ ''/archival_objects/'' @ rid))])
                (trace (snd (row_body e c r st)))"
proof -
  let ?rq = "Sent (GET (api_url_of c @ ''/repositories/'' @ fstr (repo_identifier c)
                                 @ ''/archival_objects/'' @ rid))"
  obtain u st2 where up: "update_archival_object e (api_url_of c) r1 rid (repo_identifier c) st1
                             = (u, st2)"
    by (cases "update_archival_object e (api_url_of c) r1 rid (repo_identifier c) st1") auto
  have one: "prefix (trace st1 @ [?rq]) (trace st2)"
    using update_sends_fetch [of st1 "api_url_of c" "repo_identifier c" rid e r1] up by simp
  have two: "prefix (trace st2) (trace (snd (row_body e c r st)))"
  proof (cases u)
    case (Inl err)
    with assms up show ?thesis
      by (simp add: row_body_def Let_def build_step_def)
  next
    case (Inr v)
    show ?thesis
    proof (cases v)
      case None
      with Inr assms up show ?thesis
        by (simp add: row_body_def Let_def build_step_def)
    next
      case (Some p)
      with Inr assms up have "row_body e c r st
          = post_step e c r1 (st2\<lparr>var_record_json_endpoint := Some p\<rparr>)"
        by (simp add: row_body_def Let_def build_step_def)
      then show ?thesis
        using prefix_trace_post_step [of "st2\<lparr>var_record_json_endpoint := Some p\<rparr>" e c r1]
        by simp
    qed
  qed
  from one two show ?thesis by (rule prefix_order.trans)
qed

lemma prefix_trace_after_container_step:
  assumes "record_id_of (Parent_Record r) = rid" and "rid \<noteq> []"
  shows "prefix (trace (snd (container_step e c rid r (st\<lparr>var_row_bound := True\<rparr>))))
                (trace (snd (row_body e c r st)))"
proof -
  obtain x st1 where cs: "container_step e c rid r (st\<lparr>var_row_bound := True\<rparr>) = (x, st1)"
    by (cases "container_step e c rid r (st\<lparr>var_row_bound := True\<rparr>)") auto
  show ?thesis
  proof (cases x)
    case (Inl err)
    with assms cs show ?thesis by (simp add: row_body_def Let_def)
  next
    case (Inr r1)
    obtain y st2 where bs: "build_step e c rid (set_resource (Parent_Record r)) r1 st1 = (y, st2)"
      by (cases "build_step e c rid (set_resource (Parent_Record r)) r1 st1") auto
    have a: "prefix (trace st1) (trace st2)"
      by (rule prefix_trace_by_advances [OF advances_build_step [OF bs advances_refl]])
    show ?thesis
    proof (cases y)
      case (Inl err)
      with assms cs Inr bs a show ?thesis by (simp add: row_body_def Let_def)
    next
      case (Inr u)
      with assms cs \<open>x = Inr r1\<close> bs have "row_body e c r st = post_step e c r1 st2"
        by (simp add: row_body_def Let_def)
      with a prefix_trace_post_step [of st2 e c r1] cs show ?thesis
        by (simp add: prefix_order.trans)
    qed
  qed
qed

lemma lookup_uses_identifier:
  assumes "record_id_of (Parent_Record r) = rid" and "rid \<noteq> []"
    and "Top_Container r \<noteq> Some []" and "Top_Container r \<noteq> Some (previous_container c)"
  shows "prefix (trace st
                   @ [Sent (GET (api_url_of c @ ''/repositories/'' @ fstr (repo_identifier c)
                                 @ ''/archival_objects/'' @ rid))])
                (trace (snd (row_body e c r st)))"
proof -
  let ?st0 = "st\<lparr>var_row_bound := True\<rparr>"
  let ?rq = "Sent (GET (api_url_of c @ ''/repositories/'' @ fstr (repo_identifier c)
                                 @ ''/archival_objects/'' @ rid))"
  obtain g st1 where gc: "get_containers e (api_url_of c) rid (repo_identifier c) ?st0 = (g, st1)"
    by (cases "get_containers e (api_url_of c) rid (repo_identifier c) ?st0") auto
  have one: "prefix (trace st @ [?rq]) (trace st1)"
    using get_containers_sends_fetch [of ?st0 "api_url_of c" "repo_identifier c" rid e] gc
    by simp
  have two: "prefix (trace st1) (trace (snd (container_step e c rid r ?st0)))"
  proof (cases g)
    case (Inl err)
    with assms gc show ?thesis by (simp add: container_step_def)
  next
    case (Inr cl)
    have "prefix (trace (st1\<lparr>var_container_list := Some cl\<rparr>))
            (trace (snd (get_matched_containers cl (Top_Container r)
                      (st1\<lparr>var_container_list := Some cl\<rparr>))))"
      by (rule prefix_trace_get_matched_containers)
    with Inr assms gc show ?thesis
      by (auto simp: container_step_def split: prod.splits)
  qed
  from one two prefix_trace_after_container_step [OF assms(1,2), of e c st]
  show ?thesis by (blast intro: prefix_order.trans)
qed

text \<open>
  C10. The identifier taken from the parent-record reference is empty exactly when
  the reference is empty or ends with an underscore, and is the whole reference when
  the reference has no underscore. A row with an empty identifier is skipped: the
  loop records the skip, sends nothing and writes nothing. A row with any other
  identifier is not skipped. When its reference has no underscore (and is not empty),
  the whole reference is the record identifier in the requests of the row: when the
  loop looks the containers up, its first request fetches the archival object at
  the address that ends with the reference; when the container step has returned,
  a file that creates records next posts a record whose \<open>parent\<close> ends with the
  reference, and a file that updates records next fetches the archival object at the
  address that ends with it.
\<close>

theorem row_skipped_only_without_identifier:
  "(record_id_of pr = [] \<longleftrightarrow> pr = [] \<or> (\<exists>p. pr = p @ ''_''))
   \<and> (CHR ''_'' \<notin> set pr \<longrightarrow> record_id_of pr = pr)
   \<and> (Parent_Record r = pr \<and> record_id_of pr = [] \<longrightarrow>
        row_body e c r st = (Inr Next, emit (Skipped r) (st\<lparr>var_row_bound := True\<rparr>)))
   \<and> (Parent_Record r = pr \<and> record_id_of pr \<noteq> [] \<longrightarrow> unskipped st (snd (row_body e c r st)))
   \<and> (Parent_Record r = pr \<and> CHR ''_'' \<notin> set pr \<and> pr \<noteq> [] \<longrightarrow>
        unskipped st (snd (row_body e c r st))
        \<and> row_body e c r st =
            (case container_step e c pr r (st\<lparr>var_row_bound := True\<rparr>) of
               (Inl err, st1) \<Rightarrow> (Inl err, st1)
             | (Inr r1, st1) \<Rightarrow>
                 (case build_step e c pr (set_resource pr) r1 st1 of
                    (Inl err, st2) \<Rightarrow> (Inl err, st2)
                  | (Inr u, st2) \<Rightarrow> post_step e c r1 st2)))
   \<and> parent (fst (create_archival_object r repo pr res)) =
        ''/repositories/'' @ fstr repo @ ''/archival_objects/'' @ pr
   \<and> trace (snd (update_archival_object e api r pr repo st)) ! length (trace st) =
        Sent (GET (api @ ''/repositories/'' @ fstr repo @ ''/archival_objects/'' @ pr))
   \<and> (Parent_Record r = pr \<and> CHR ''_'' \<notin> set pr \<and> pr \<noteq> []
        \<and> Top_Container r \<noteq> Some [] \<and> Top_Container r \<noteq> Some (previous_container c) \<longrightarrow>
        prefix (trace st
                  @ [Sent (GET (api_url_of c @ ''/repositories/'' @ fstr (repo_identifier c)
                                @ ''/archival_objects/'' @ pr))])
               (trace (snd (row_body e c r st))))
   \<and> (Parent_Record r = pr \<and> CHR ''_'' \<notin> set pr \<and> pr \<noteq> []
        \<and> action_of c = Some create_archival_object_fn
        \<and> container_step e c pr r (st\<lparr>var_row_bound := True\<rparr>) = (Inr r1, st1) \<longrightarrow>
        (\<exists>ao. prefix (trace st1
                         @ [Sent (POST (api_url_of c @ ''/repositories/''
                                        @ fstr (repo_identifier c) @ ''/archival_objects'')
                                   (Some (Record_payload ao)))])
                      (trace (snd (row_body e c r st)))
              \<and> parent ao = ''/repositories/'' @ fstr (repo_identifier c)
                             @ ''/archival_objects/'' @ pr))
   \<and> (Parent_Record r = pr \<and> CHR ''_'' \<notin> set pr \<and> pr \<noteq> []
        \<and> action_of c = Some update_archival_object_fn
        \<and> container_step e c pr r (st\<lparr>var_row_bound := True\<rparr>) = (Inr r1, st1) \<longrightarrow>
        prefix (trace st1
                  @ [Sent (GET (api_url_of c @ ''/repositories/'' @ fstr (repo_identifier c)
                                @ ''/archival_objects/'' @ pr))])
               (trace (snd (row_body e c r st))))"
proof -
  have one: "record_id_of pr = [] \<longleftrightarrow> pr = [] \<or> (\<exists>p. pr = p @ ''_'')"
    by (rule record_id_empty_iff)
  have two: "CHR ''_'' \<notin> set pr \<longrightarrow> record_id_of pr = pr"
    by (simp add: record_id_whole)
  have three: "Parent_Record r = pr \<and> record_id_of pr = [] \<longrightarrow>
        row_body e c r st = (Inr Next, emit (Skipped r) (st\<lparr>var_row_bound := True\<rparr>))"
    by (simp add: row_body_def Let_def)
  have four: "Parent_Record r = pr \<and> record_id_of pr \<noteq> [] \<longrightarrow>
        unskipped st (snd (row_body e c r st))"
    using unskipped_row_body [of r e c st "fst (row_body e c r st)" "snd (row_body e c r st)"]
    by simp
  have five: "Parent_Record r = pr \<and> CHR ''_'' \<notin> set pr \<and> pr \<noteq> [] \<longrightarrow>
        unskipped st (snd (row_body e c r st))
        \<and> row_body e c r st =
            (case container_step e c pr r (st\<lparr>var_row_bound := True\<rparr>) of
               (Inl err, st1) \<Rightarrow> (Inl err, st1)
             | (Inr r1, st1) \<Rightarrow>
                 (case build_step e c pr (set_resource pr) r1 st1 of
                    (Inl err, st2) \<Rightarrow> (Inl err, st2)
                  | (Inr u, st2) \<Rightarrow> post_step e c r1 st2))"
  proof (intro impI conjI)
    assume h: "Parent_Record r = pr \<and> CHR ''_'' \<notin> set pr \<and> pr \<noteq> []"
    then have id: "record_id_of pr = pr" by (simp add: record_id_whole)
    with h four show "unskipped st (snd (row_body e c r st))" by simp
    from h id show "row_body e c r st =
            (case container_step e c pr r (st\<lparr>var_row_bound := True\<rparr>) of
               (Inl err, st1) \<Rightarrow> (Inl err, st1)
             | (Inr r1, st1) \<Rightarrow>
                 (case build_step e c pr (set_resource pr) r1 st1 of
                    (Inl err, st2) \<Rightarrow> (Inl err, st2)
                  | (Inr u, st2) \<Rightarrow> post_step e c r1 st2))"
      by (simp add: row_body_def Let_def)
  qed
  have six: "parent (fst (create_archival_object r repo pr res)) =
        ''/repositories/'' @ fstr repo @ ''/archival_objects/'' @ pr"
    by (simp add: create_archival_object_def Let_def split: option.splits)
  have seven: "Parent_Record r = pr \<and> CHR ''_'' \<notin> set pr \<and> pr \<noteq> []
        \<and> Top_Container r \<noteq> Some [] \<and> Top_Container r \<noteq> Some (previous_container c) \<longrightarrow>
        prefix (trace st
                  @ [Sent (GET (api_url_of c @ ''/repositories/'' @ fstr (repo_identifier c)
                                @ ''/archival_objects/'' @ pr))])
               (trace (snd (row_body e c r st)))"
    using lookup_uses_identifier [of r pr c st e] by (simp add: record_id_whole)
  have eight: "Parent_Record r = pr \<and> CHR ''_'' \<notin> set pr \<and> pr \<noteq> []
        \<and> action_of c = Some create_archival_object_fn
        \<and> container_step e c pr r (st\<lparr>var_row_bound := True\<rparr>) = (Inr r1, st1) \<longrightarrow>
        (\<exists>ao. prefix (trace st1
                         @ [Sent (POST (api_url_of c @ ''/repositories/''
                                        @ fstr (repo_identifier c) @ ''/archival_objects'')
                                   (Some (Record_payload ao)))])
                      (trace (snd (row_body e c r st)))
              \<and> parent ao = ''/repositories/'' @ fstr (repo_identifier c)
                             @ ''/archival_objects/'' @ pr)"
    using created_record_is_posted [of c r pr e st r1 st1] by (simp add: record_id_whole)
  have nine: "Parent_Record r = pr \<and> CHR ''_'' \<notin> set pr \<and> pr \<noteq> []
        \<and> action_of c = Some update_archival_object_fn
        \<and> container_step e c pr r (st\<lparr>var_row_bound := True\<rparr>) = (Inr r1, st1) \<longrightarrow>
        prefix (trace st1
                  @ [Sent (GET (api_url_of c @ ''/repositories/'' @ fstr (repo_identifier c)
                                @ ''/archival_objects/'' @ pr))])
               (trace (snd (row_body e c r st)))"
    using updated_record_is_fetched [of c r pr e st r1 st1] by (simp add: record_id_whole)
  show ?thesis
    by (intro conjI one two three four five six update_first_request seven eight nine)
qed

theorem row_skipped_only_without_identifier_witness:
  "record_id_of ''12345'' = ''12345''
   \<and> unskipped initial (snd (row_body sample_env sample_vars
        (sample_row\<lparr>Parent_Record := ''12345''\<rparr>) initial))
   \<and> row_body sample_env sample_vars (sample_row\<lparr>Parent_Record := ''abc_''\<rparr>) initial =
        (Inr Next, emit (Skipped (sample_row\<lparr>Parent_Record := ''abc_''\<rparr>))
                     (initial\<lparr>var_row_bound := True\<rparr>))
   \<and> prefix [Sent (GET ''http://a/repositories/2/archival_objects/12345'')]
        (trace (snd (row_body sample_env sample_vars
           (sample_row\<lparr>Parent_Record := ''12345'', Top_Container := Some ''1''\<rparr>) initial)))
   \<and> (\<exists>ao. prefix [Sent (POST ''http://a/repositories/2/archival_objects''
                         (Some (Record_payload ao)))]
              (trace (snd (row_body sample_env sample_vars
                 (sample_row\<lparr>Parent_Record := ''12345''\<rparr>) initial)))
         \<and> parent ao = ''/repositories/2/archival_objects/12345'')
   \<and> prefix [Sent (GET ''http://a/repositories/2/archival_objects/12345'')]
        (trace (snd (row_body sample_env (sample_vars\<lparr>action_of := Some update_archival_object_fn\<rparr>)
           (sample_row\<lparr>Parent_Record := ''12345''\<rparr>) initial)))"
proof -
  let ?r = "sample_row\<lparr>Parent_Record := ''12345''\<rparr>"
  let ?rb = "sample_row\<lparr>Parent_Record := ''12345'', Top_Container := Some ''1''\<rparr>"
  let ?u = "sample_vars\<lparr>action_of := Some update_archival_object_fn\<rparr>"
  let ?st0 = "initial\<lparr>var_row_bound := True\<rparr>"
  have a: "CHR ''_'' \<notin> set ''12345''" by simp
  have a': "''12345'' \<noteq> []" by simp
  have b: "Parent_Record ?r = ''12345''" by simp
  have b': "Parent_Record ?rb = ''12345''" by simp
  have c: "record_id_of ''abc_'' = []" by code_simp
  have d: "Parent_Record (sample_row\<lparr>Parent_Record := ''abc_''\<rparr>) = ''abc_''" by simp
  have vars: "api_url_of sample_vars = ''http://a''" "repo_identifier sample_vars = Some ''2''"
    "action_of sample_vars = Some create_archival_object_fn"
    "previous_container sample_vars = []"
    "api_url_of ?u = ''http://a''" "repo_identifier ?u = Some ''2''"
    "action_of ?u = Some update_archival_object_fn"
    by (simp_all add: sample_vars_def)
  have t0: "trace initial = []" "trace ?st0 = []" by (simp_all add: initial_def)
  have box: "Top_Container ?rb \<noteq> Some [] \<and> Top_Container ?rb \<noteq> Some (previous_container sample_vars)"
    by (simp add: vars)
  have cs: "container_step sample_env sample_vars ''12345'' ?r ?st0 = (Inr ?r, ?st0)"
    by (simp add: container_step_def sample_row_def)
  have cs': "container_step sample_env ?u ''12345'' ?r ?st0 = (Inr ?r, ?st0)"
    by (simp add: container_step_def sample_row_def)
  from row_skipped_only_without_identifier
         [of "''12345''" ?r sample_env sample_vars initial] a a' b
  have first: "record_id_of ''12345'' = ''12345''
     \<and> unskipped initial (snd (row_body sample_env sample_vars ?r initial))"
    by blast
  from row_skipped_only_without_identifier
         [of "''abc_''" "sample_row\<lparr>Parent_Record := ''abc_''\<rparr>" sample_env sample_vars initial]
       c d
  have second: "row_body sample_env sample_vars (sample_row\<lparr>Parent_Record := ''abc_''\<rparr>) initial =
        (Inr Next, emit (Skipped (sample_row\<lparr>Parent_Record := ''abc_''\<rparr>))
                     (initial\<lparr>var_row_bound := True\<rparr>))"
    by blast
  from row_skipped_only_without_identifier
         [of "''12345''" ?rb sample_env sample_vars initial] a a' b' box
  have "prefix (trace initial
                  @ [Sent (GET (api_url_of sample_vars @ ''/repositories/''
                                @ fstr (repo_identifier sample_vars)
                                @ ''/archival_objects/'' @ ''12345''))])
               (trace (snd (row_body sample_env sample_vars ?rb initial)))"
    by blast
  then have third: "prefix [Sent (GET ''http://a/repositories/2/archival_objects/12345'')]
        (trace (snd (row_body sample_env sample_vars ?rb initial)))"
    by (simp add: vars t0 fstr_def)
  from row_skipped_only_without_identifier
         [where pr = "''12345''" and r = ?r and e = sample_env and c = sample_vars
            and st = initial and ?r1.0 = ?r and ?st1.0 = ?st0]
       a a' b cs vars(3)
  have "\<exists>ao. prefix (trace ?st0
                         @ [Sent (POST (api_url_of sample_vars @ ''/repositories/''
                                        @ fstr (repo_identifier sample_vars)
                                        @ ''/archival_objects'')
                                   (Some (Record_payload ao)))])
                      (trace (snd (row_body sample_env sample_vars ?r initial)))
              \<and> parent ao = ''/repositories/'' @ fstr (repo_identifier sample_vars)
                             @ ''/archival_objects/'' @ ''12345''"
    by blast
  then have fourth: "\<exists>ao. prefix [Sent (POST ''http://a/repositories/2/archival_objects''
                         (Some (Record_payload ao)))]
              (trace (snd (row_body sample_env sample_vars ?r initial)))
         \<and> parent ao = ''/repositories/2/archival_objects/12345''"
    by (simp add: vars t0 fstr_def)
  from row_skipped_only_without_identifier
         [where pr = "''12345''" and r = ?r and e = sample_env and c = ?u
            and st = initial and ?r1.0 = ?r and ?st1.0 = ?st0]
       a a' b cs' vars(7)
  have "prefix (trace ?st0
                  @ [Sent (GET (api_url_of ?u @ ''/repositories/'' @ fstr (repo_identifier ?u)
                                @ ''/archival_objects/'' @ ''12345''))])
               (trace (snd (row_body sample_env ?u ?r initial)))"
    by blast
  then have fifth: "prefix [Sent (GET ''http://a/repositories/2/archival_objects/12345'')]
        (trace (snd (row_body sample_env ?u ?r initial)))"
    by (simp add: vars t0 fstr_def)
  from first second third fourth fifth show ?thesis by blast
qed

subsection \<open>The trace of a file and of the run\<close>

lemma advances_trace: "advances st st' \<Longrightarrow> prefix (trace st) (trace st')"
  by (auto simp: advances_def unskipped_def)

lemma extends_trace: "extends st st' \<Longrightarrow> prefix (trace st) (trace st')"
  by (simp add: extends_def)

lemma trace_get_repo:
  "get_repo e fr api st = (r, st') \<Longrightarrow> prefix (trace st) (trace st')"
  by (rule advances_trace [OF advances_get_repo [OF _ advances_refl]])

lemma trace_get_agent:
  "get_agent e api a u st = (r, st') \<Longrightarrow> prefix (trace st) (trace st')"
  by (rule advances_trace [OF advances_get_agent [OF _ advances_refl]])

lemma trace_get_containers:
  "get_containers e api p repo st = (r, st') \<Longrightarrow> prefix (trace st) (trace st')"
  by (rule advances_trace [OF advances_get_containers [OF _ advances_refl]])

lemma trace_process_rows:
  "process_rows e c rows st = (r, st') \<Longrightarrow> prefix (trace st) (trace st')"
  by (rule extends_trace [OF extends_process_rows [OF _ extends_refl]])

lemma trace_after_get_action:
  assumes "file_rows f \<noteq> []"
  shows "prefix (trace (snd (get_action (file_name f) st)))
                (trace (snd (process_file e cfg api f st)))"
proof -
  obtain a st1 where ga: "get_action (file_name f) st = (a, st1)"
    by (cases "get_action (file_name f) st") auto
  obtain r st' where pf: "process_file e cfg api f st = (r, st')"
    by (cases "process_file e cfg api f st") auto
  from assms pf ga have "prefix (trace st1) (trace st')"
    by (auto simp: process_file_def Let_def simp del: process_rows.simps
             split: list.splits prod.splits sum.splits option.splits if_splits
             dest!: trace_get_repo trace_get_agent trace_get_containers trace_process_rows)
  with ga pf show ?thesis by simp
qed

lemma trace_process_file:
  "prefix (trace st) (trace (snd (process_file e cfg api f st)))"
proof (cases "file_rows f")
  case Nil
  then show ?thesis by (simp add: process_file_def Let_def)
next
  case (Cons first_row rest)
  then have "prefix (trace (snd (get_action (file_name f) st)))
                    (trace (snd (process_file e cfg api f st)))"
    by (intro trace_after_get_action) simp
  moreover have "prefix (trace st) (trace (snd (get_action (file_name f) st)))"
    by (auto simp: get_action_def emit_def split: sum.splits)
  ultimately show ?thesis by (rule prefix_order.trans [rotated])
qed

lemma trace_process_files:
  "prefix (trace st) (trace (snd (process_files e cfg api fs st)))"
proof (induction fs arbitrary: st)
  case Nil
  show ?case by simp
next
  case (Cons f fs)
  obtain r st' where pf: "process_file e cfg api f st = (r, st')"
    by (cases "process_file e cfg api f st") auto
  have one: "prefix (trace st) (trace st')"
    using trace_process_file [of st e cfg api f] pf by simp
  show ?case
  proof (cases r)
    case (Inl err)
    with pf one show ?thesis by simp
  next
    case (Inr u)
    with pf have "process_files e cfg api (f # fs) st = process_files e cfg api fs st'"
      by simp
    with one Cons.IH [of st'] show ?thesis
      by (simp add: prefix_order.trans)
  qed
qed

lemma trace_process_files_head:
  "prefix (trace (snd (process_file e cfg api f st)))
          (trace (snd (process_files e cfg api (f # fs) st)))"
proof -
  obtain r st' where h: "process_file e cfg api f st = (r, st')"
    by (cases "process_file e cfg api f st") auto
  show ?thesis
    using trace_process_files [of st' e cfg api fs]
    by (cases r) (simp_all add: h)
qed

lemma trace_move_files_helper:
  "trace (snd (move_files_helper vs key st)) = trace st"
  by (induction vs arbitrary: st) (auto simp: Let_def)

lemma trace_move_files: "trace (snd (move_files d st)) = trace st"
proof (induction d arbitrary: st)
  case Nil
  show ?case by simp
next
  case (Cons kv d)
  obtain key vs where kv: "kv = (key, vs)" by (cases kv)
  obtain r st' where h: "move_files_helper vs key st = (r, st')"
    by (cases "move_files_helper vs key st") auto
  have t: "trace st' = trace st"
    using trace_move_files_helper [of vs key st] h by simp
  show ?case
    using Cons.IH [of st'] Cons.IH [of st] t
    by (cases r) (simp_all add: kv h)
qed

lemma trace_main:
  "prefix (trace (snd (main_try e cfg fl initial))) (trace (snd (main e cfg fl)))"
proof -
  obtain r st1 where mt: "main_try e cfg fl initial = (r, st1)"
    by (cases "main_try e cfg fl initial") auto
  define st2 where "st2 = (case r of Inr u \<Rightarrow> st1
       | Inl err \<Rightarrow> if var_row_bound st1 then emit (Logged err) st1 else st1)"
  have a: "prefix (trace st1) (trace st2)"
    by (auto simp: st2_def emit_def split: sum.splits)
  obtain m st3 where mf: "move_files (file_results st2) st2 = (m, st3)"
    by (cases "move_files (file_results st2) st2") auto
  have b: "trace st3 = trace st2"
    using trace_move_files [of "file_results st2" st2] mf by simp
  have "trace (snd (main e cfg fl)) = trace st3"
    using mt mf by (cases m) (simp_all add: main_def Let_def st2_def)
  with a b mt show ?thesis by simp
qed

text \<open>
  C6, as the code has it. For a file name that contains neither \<open>create\<close> nor
  \<open>update\<close>, whatever the case of its letters, \<open>set_action_type\<close> raises
  \<open>FileNameError\<close> with the name, and \<open>get_action\<close> logs it and returns \<open>None\<close>, without
  a request. For a file with a data line this is the first thing that happens for
  the file, before any request made for it; in \<open>main\<close> it comes after the login
  request, with which the run opens its session before it reads the files.
\<close>

theorem file_name_error_after_login:
  assumes "\<not> str_in ''create'' (str_lower n)" and "\<not> str_in ''update'' (str_lower n)"
  shows "set_action_type n = Inl (FileNameError n)
     \<and> get_action n st = (None, emit (Logged (FileNameError n)) st)
     \<and> (file_name f = n \<and> file_rows f \<noteq> [] \<longrightarrow>
          prefix (trace st @ [Logged (FileNameError n)])
                 (trace (snd (process_file e cfg api f st))))
     \<and> (file_name f = n \<and> file_rows f \<noteq> []
         \<and> login_reply e [Sent (POST (cfg_api_url cfg @ ''/users/'' @ cfg_username cfg
               @ ''/login?password='' @ cfg_password cfg) None)] = Response 200 token \<longrightarrow>
          prefix [Sent (POST (cfg_api_url cfg @ ''/users/'' @ cfg_username cfg
                    @ ''/login?password='' @ cfg_password cfg) None),
                  Logged (FileNameError n)]
                 (trace (snd (main e cfg (f # fs)))))"
proof -
  have sat: "set_action_type n = Inl (FileNameError n)"
    using assms by (simp add: set_action_type_def)
  then have ga: "get_action n st' = (None, emit (Logged (FileNameError n)) st')" for st'
    by (simp add: get_action_def)
  have pf: "prefix (trace st' @ [Logged (FileNameError n)])
                   (trace (snd (process_file e cfg api' f st')))"
    if "file_name f = n" and "file_rows f \<noteq> []" for st' api'
    using trace_after_get_action [OF that(2), of st' e cfg api'] that(1) ga [of st']
    by (simp add: emit_def)
  have mn: "prefix [Sent (POST (cfg_api_url cfg @ ''/users/'' @ cfg_username cfg
                    @ ''/login?password='' @ cfg_password cfg) None),
                  Logged (FileNameError n)]
                 (trace (snd (main e cfg (f # fs))))"
    if fn: "file_name f = n" and fr: "file_rows f \<noteq> []"
      and login: "login_reply e [Sent (POST (cfg_api_url cfg @ ''/users/'' @ cfg_username cfg
               @ ''/login?password='' @ cfg_password cfg) None)] = Response 200 token"
  proof -
    let ?login = "Sent (POST (cfg_api_url cfg @ ''/users/'' @ cfg_username cfg
                    @ ''/login?password='' @ cfg_password cfg) None)"
    let ?st1 = "emit ?login initial"
    have gs: "get_session e (cfg_api_url cfg) (cfg_username cfg) (cfg_password cfg) initial
                = (Inr (Some (cfg_api_url cfg)), ?st1)"
      using login
      by (simp add: get_session_def start_session_def send_def emit_def initial_def Let_def)
    then have mt: "main_try e cfg (f # fs) initial
                = process_files e cfg (cfg_api_url cfg) (f # fs) ?st1"
      by (simp add: main_try_def)
    have t1: "trace ?st1 = [?login]"
      by (simp add: emit_def initial_def)
    have one: "prefix ([?login] @ [Logged (FileNameError n)])
                 (trace (snd (process_file e cfg (cfg_api_url cfg) f ?st1)))"
      using pf [OF fn fr, of ?st1 "cfg_api_url cfg"] t1 by simp
    have two: "prefix (trace (snd (process_file e cfg (cfg_api_url cfg) f ?st1)))
                 (trace (snd (process_files e cfg (cfg_api_url cfg) (f # fs) ?st1)))"
      by (rule trace_process_files_head)
    have three: "prefix (trace (snd (process_files e cfg (cfg_api_url cfg) (f # fs) ?st1)))
                   (trace (snd (main e cfg (f # fs))))"
      using trace_main [of e cfg "f # fs"] mt by simp
    from prefix_order.trans [OF prefix_order.trans [OF one two] three]
    show ?thesis by simp
  qed
  from sat ga [of st] pf [of st api] mn show ?thesis by blast
qed

theorem file_name_error_after_login_witness:
  "set_action_type ''/m/aspace_spreadsheets_all_repos/batch_4.csv''
     = Inl (FileNameError ''/m/aspace_spreadsheets_all_repos/batch_4.csv'')
   \<and> prefix [Sent (POST (cfg_api_url sample_config @ ''/users/'' @ cfg_username sample_config
                    @ ''/login?password='' @ cfg_password sample_config) None),
             Logged (FileNameError ''/m/aspace_spreadsheets_all_repos/batch_4.csv'')]
            (trace (snd (main sample_env sample_config (unnamed_file # []))))"
proof -
  have a: "\<not> str_in ''create'' (str_lower ''/m/aspace_spreadsheets_all_repos/batch_4.csv'')"
    by code_simp
  have b: "\<not> str_in ''update'' (str_lower ''/m/aspace_spreadsheets_all_repos/batch_4.csv'')"
    by code_simp
  have c: "file_name unnamed_file = ''/m/aspace_spreadsheets_all_repos/batch_4.csv''
           \<and> file_rows unnamed_file \<noteq> []"
    by (simp add: unnamed_file_def)
  have d: "login_reply sample_env [Sent (POST (cfg_api_url sample_config @ ''/users/''
               @ cfg_username sample_config @ ''/login?password='' @ cfg_password sample_config)
               None)] = Response 200 ''token''"
    by (simp add: sample_env_def)
  from file_name_error_after_login
         [OF a b, where f = unnamed_file and e = sample_env and cfg = sample_config
            and token = "''token''" and fs = "[]"]
       c d
  show ?thesis by blast
qed

text \<open>
  C6, as it is stated, fails on the run over the one file \<open>batch_4.csv\<close>: the first
  thing in the trace is the login request, and the \<open>FileNameError\<close> comes second.
\<close>

theorem file_name_error_follows_login:
  "take 2 (trace (snd (main sample_env sample_config [unnamed_file])))
     = [Sent (POST ''http://a/users/u/login?password=p'' None),
        Logged (FileNameError ''/m/aspace_spreadsheets_all_repos/batch_4.csv'')]"
  by code_simp

subsection \<open>Updating a record\<close>

lemma get_uris_loop_refs:
  "\<forall>i \<in> set xs. instance_type i \<noteq> Some ''digital_object'' \<longrightarrow> sub_container i \<noteq> None \<Longrightarrow>
   get_uris_loop xs acc =
     Inr (acc @ concat (map (\<lambda>i. case sub_container i of Some sc \<Rightarrow> [top_container_ref sc] | None \<Rightarrow> [])
                        (filter (\<lambda>i. instance_type i \<noteq> Some ''digital_object'') xs)))"
  by (induction xs arbitrary: acc) auto

lemma get_uris_refs:
  "\<forall>i \<in> set (instances record_json).
      instance_type i \<noteq> Some ''digital_object'' \<longrightarrow> sub_container i \<noteq> None \<Longrightarrow>
   get_uris record_json = Inr (container_refs record_json)"
  by (simp add: get_uris_def container_refs_def get_uris_loop_refs)

text \<open>
  C3. Let the record be fetched (status 200). Whenever \<open>update_archival_object\<close> returns
  a record, its instances are those of the fetched record, in their order, followed
  by at most one new instance: none is removed. When each instance that is not a
  digital object has its \<open>sub_container\<close> (otherwise \<open>get_uris\<close> may raise \<open>KeyError\<close>), the
  function does return, and the new instance is there exactly when the container of
  the row is neither \<open>None\<close> nor empty and is not among the references to top
  containers of the instances that are not digital objects; so a record with one
  instance and a row with another container end with two instances.
\<close>

theorem update_keeps_instances:
  assumes fetched:
    "record_reply e (trace st @ [Sent (GET (api @ ''/repositories/'' @ fstr repo
        @ ''/archival_objects/'' @ ao_id))]) = Response 200 record_json"
  shows "(\<forall>record_json' endpoint st'.
        update_archival_object e api r ao_id repo st = (Inr (Some (record_json', endpoint)), st')
        \<longrightarrow> (\<exists>new. instances record_json' = instances record_json @ new \<and> length new \<le> 1)
            \<and> set (instances record_json) \<subseteq> set (instances record_json'))
     \<and> ((\<forall>i \<in> set (instances record_json).
            instance_type i \<noteq> Some ''digital_object'' \<longrightarrow> sub_container i \<noteq> None)
        \<longrightarrow> (\<exists>record_json' endpoint st'.
              update_archival_object e api r ao_id repo st
                = (Inr (Some (record_json', endpoint)), st')
              \<and> instances record_json' =
                  instances record_json
                  @ (case Top_Container r of
                       None \<Rightarrow> []
                     | Some tc \<Rightarrow>
                         if tc \<noteq> [] \<and> tc \<notin> set (container_refs record_json)
                         then [create_instance tc] else [])
              \<and> (length (instances record_json) = 1
                   \<and> (\<exists>tc. Top_Container r = Some tc \<and> tc \<noteq> []
                             \<and> tc \<notin> set (container_refs record_json))
                   \<longrightarrow> length (instances record_json') = 2)))"
proof (intro conjI allI impI)
  fix record_json' endpoint st'
  assume ret: "update_archival_object e api r ao_id repo st
                 = (Inr (Some (record_json', endpoint)), st')"
  from fetched ret
  have "\<exists>new. instances record_json' = instances record_json @ new \<and> length new \<le> 1"
    by (auto simp: update_archival_object_def get_record_def send_def emit_def Let_def
             split: option.splits if_splits sum.splits)
  then show "\<exists>new. instances record_json' = instances record_json @ new \<and> length new \<le> 1"
    and "set (instances record_json) \<subseteq> set (instances record_json')"
    by auto
next
  assume schema: "\<forall>i \<in> set (instances record_json).
            instance_type i \<noteq> Some ''digital_object'' \<longrightarrow> sub_container i \<noteq> None"
  let ?changed = "record_json\<lparr>component_id := Component_Unique_ID r, extents := update_extents r\<rparr>"
  have uris: "get_uris ?changed = Inr (container_refs record_json)"
    using get_uris_refs [OF schema] by (simp add: get_uris_def)
  show "\<exists>record_json' endpoint st'.
              update_archival_object e api r ao_id repo st
                = (Inr (Some (record_json', endpoint)), st')
              \<and> instances record_json' =
                  instances record_json
                  @ (case Top_Container r of
                       None \<Rightarrow> []
                     | Some tc \<Rightarrow>
                         if tc \<noteq> [] \<and> tc \<notin> set (container_refs record_json)
                         then [create_instance tc] else [])
              \<and> (length (instances record_json) = 1
                   \<and> (\<exists>tc. Top_Container r = Some tc \<and> tc \<noteq> []
                             \<and> tc \<notin> set (container_refs record_json))
                   \<longrightarrow> length (instances record_json') = 2)"
    using fetched uris
    by (cases "Top_Container r")
       (auto simp: update_archival_object_def get_record_def send_def emit_def Let_def)
qed

theorem update_keeps_instances_witness:
  "\<exists>record_json' endpoint st'.
      update_archival_object one_box_env ''http://a'' (sample_row\<lparr>Top_Container := Some ''/c/2''\<rparr>)
        ''5'' (Some ''2'') initial = (Inr (Some (record_json', endpoint)), st')
      \<and> instances record_json' = [create_instance ''/c/1'', create_instance ''/c/2'']
      \<and> length (instances record_json') = 2"
proof -
  have a: "record_reply one_box_env (trace initial @ [Sent (GET (''http://a'' @ ''/repositories/''
        @ fstr (Some ''2'') @ ''/archival_objects/'' @ ''5''))]) = Response 200 one_box_record"
    by (simp add: one_box_env_def)
  have b: "\<forall>i \<in> set (instances one_box_record).
        instance_type i \<noteq> Some ''digital_object'' \<longrightarrow> sub_container i \<noteq> None"
    by (simp add: one_box_record_def create_instance_def)
  have c: "container_refs one_box_record = [''/c/1'']"
    by (simp add: container_refs_def one_box_record_def create_instance_def)
  have d: "instances one_box_record = [create_instance ''/c/1'']"
    by (simp add: one_box_record_def)
  from update_keeps_instances [OF a, of "sample_row\<lparr>Top_Container := Some ''/c/2''\<rparr>"] b
  have "\<exists>record_json' endpoint st'.
      update_archival_object one_box_env ''http://a'' (sample_row\<lparr>Top_Container := Some ''/c/2''\<rparr>)
        ''5'' (Some ''2'') initial = (Inr (Some (record_json', endpoint)), st')
      \<and> instances record_json' =
          instances one_box_record
          @ (case Top_Container (sample_row\<lparr>Top_Container := Some ''/c/2''\<rparr>) of
               None \<Rightarrow> []
             | Some tc \<Rightarrow>
                 if tc \<noteq> [] \<and> tc \<notin> set (container_refs one_box_record)
                 then [create_instance tc] else [])"
    by blast
  then show ?thesis by (auto simp: c d)
qed

subsection \<open>A refused record\<close>

text \<open>
  When the remote side refuses the record of a row, the handler of the post step adds
  the file to \<open>file_results['errors']\<close> and leaves the loop; the rows written before
  stay in the output file (\<open>extends_process_rows\<close>). But every file whose loop has
  ended, in either way, is added to \<open>file_results['complete']\<close>.
\<close>

lemma refused_post_leaves_loop:
  assumes "var_record_json_endpoint st = Some (record_json, endpoint)"
    and "post_reply e (trace st @ [Sent (POST (api_url_of c @ endpoint)
            (Some (Record_payload record_json)))]) = Response code body"
    and "code \<noteq> 200"
  shows "fst (post_step e c r st) = Inr Break
     \<and> outputs (snd (post_step e c r st)) = outputs st
     \<and> file_results (snd (post_step e c r st)) =
         append_result ''errors'' (input_csv_file c) (file_results st)"
  using assms
  by (simp add: post_step_def post_record_def send_def emit_def Let_def)

lemma break_ends_the_rows:
  "fst (row_body e c r st) = Inr Break \<Longrightarrow>
   process_rows e c (r # rs) st = (Inr (), snd (row_body e c r st))"
  by (cases "row_body e c r st") (auto split: sum.splits flow.splits)

lemma finished_file_is_listed_complete:
  "process_file e cfg api f st = (Inr u, st') \<Longrightarrow>
   file_name f \<in> set (results_of ''complete'' (file_results st'))"
  by (auto simp: process_file_def Let_def results_of_append_result
           simp del: process_rows.simps
           split: list.splits prod.splits sum.splits option.splits if_splits)

text \<open>
  C1 on a run over \<open>good_file\<close> and \<open>refused_file\<close>, whose second row is refused. The
  first row of \<open>refused_file\<close> is in its output file and the third row is never posted
  (three records are posted in all: one of \<open>good_file\<close>, two of \<open>refused_file\<close>). The
  file is in \<open>file_results['errors']\<close> and in \<open>file_results['complete']\<close> as well;
  \<open>move_files\<close> takes the lists in the order of their keys, moves the file to the folder
  \<open>complete\<close>, and fails with \<open>FileNotFoundError\<close> when it comes to the list of errors.
\<close>

theorem refused_file_is_listed_complete:
  "results_of ''errors'' (file_results (snd (main sample_env sample_config [good_file, refused_file])))
     = [''/m/aspace_spreadsheets_all_repos/create_2.csv'']
   \<and> results_of ''complete'' (file_results (snd (main sample_env sample_config [good_file, refused_file])))
     = [''/m/aspace_spreadsheets_all_repos/create_1.csv'',
        ''/m/aspace_spreadsheets_all_repos/create_2.csv'']
   \<and> outputs (snd (main sample_env sample_config [good_file, refused_file]))
        ''/m/aspace_spreadsheets_all_repos/outputs/create_2_out.csv''
     = [Header, Data (sample_row\<lparr>New_Component_URI := Some ''/repositories/2/archival_objects/9''\<rparr>)]
   \<and> posted (trace (snd (main sample_env sample_config [good_file, refused_file])))
     = [''http://a/users/u/login?password=p'', ''http://a/repositories/2/archival_objects'',
        ''http://a/repositories/2/archival_objects'', ''http://a/repositories/2/archival_objects'']
   \<and> moved (snd (main sample_env sample_config [good_file, refused_file]))
     = [(''/m/aspace_spreadsheets_all_repos/create_1.csv'',
         ''/m/aspace_spreadsheets_all_repos/complete/create_1.csv''),
        (''/m/aspace_spreadsheets_all_repos/create_2.csv'',
         ''/m/aspace_spreadsheets_all_repos/complete/create_2.csv'')]
   \<and> fst (main sample_env sample_config [good_file, refused_file]) = Some FileNotFoundError"
  by code_simp

subsection \<open>The container cache\<close>

text \<open>
  C4 on a file whose three rows are in the boxes 1, 2 and 2. The containers of the
  archival object 5 are looked up three times: before the loop for the first row, for
  the second row, and again for the third row, whose box is the box of the second.
  The loop compares the box of a row with \<open>previous_container\<close>, which is the box of the
  first row of the file throughout.
\<close>

theorem same_box_is_looked_up_again:
  "got (trace (snd (main sample_env sample_config [boxes_file])))
     = [''http://a/repositories'', ''http://a/users/current-user'',
        ''http://a/repositories/2/archival_objects/5'', ''http://a/c/1'', ''http://a/c/2'',
        ''http://a/repositories/2/archival_objects/5'', ''http://a/c/1'', ''http://a/c/2'',
        ''http://a/repositories/2/archival_objects/5'', ''http://a/c/1'', ''http://a/c/2'']"
  by code_simp

subsection \<open>Events\<close>

text \<open>
  A date that \<open>check_dates\<close> rejects with \<open>DataValidationError\<close>, and an event that the
  remote side refuses, cost the slot its URI only: the key of the slot is stored with
  \<open>None\<close>, and the next slot is processed. A \<open>ValueError\<close> of \<open>check_dates\<close> is caught
  nowhere below \<open>main\<close>.
\<close>

lemma unparseable_date_is_caught:
  assumes "check_dates d = Inl (DataValidationError v c)" and "t \<noteq> []"
  shows "post_slot e api agent ru repo key (Some t) oc d n event_uris st =
     (Inr (event_uris(key \<mapsto> None)),
      emit (Logged (DataValidationError None []))
        (emit (Logged (DataValidationError v c)) st))"
  using assms by (simp add: post_slot_def event_helper_def create_event_def Let_def)

lemma refused_event_is_caught:
  assumes "check_dates d = Inr b" and "t \<noteq> []"
    and "post_reply e (trace st @ [Sent (POST (api @ ''/repositories/'' @ fstr repo @ ''/events'')
            (Some (Event_payload ev)))]) = Response code body"
    and "code \<noteq> 200"
    and "fst (create_event agent ru repo t oc d n st) = Inr (Some ev)"
  shows "fst (post_slot e api agent ru repo key (Some t) oc d n event_uris st) =
     Inr (event_uris(key \<mapsto> None))"
  using assms
  by (simp add: post_slot_def event_helper_def create_event_def post_record_def send_def
        emit_def Let_def)

lemma calendar_error_leaves_post_events:
  assumes "check_dates (Begin_1 r) = Inl ValueError" and "Event_Type_1 r = Some t" and "t \<noteq> []"
  shows "post_events e r agent repo ru api st = (Inl ValueError, st)"
  using assms
  by (simp add: post_events_def post_slot_def event_helper_def create_event_def Let_def)

text \<open>
  C5 on a row whose first event has the date \<open>13/45/2024\<close> and whose second event is
  good. \<open>post_events\<close> raises \<open>ValueError\<close> and posts no event, the second included. In
  \<open>main\<close> the record of the row is posted, then the exception ends the run: the row is
  not written to the output file and the file is in no list of \<open>file_results\<close>.
\<close>

theorem bad_event_date_ends_the_run:
  "(case post_events sample_env events_row (Some ''/agents/people/1'') (Some ''2'')
            (Some ''/repositories/2/archival_objects/9'') ''http://a'' initial of
      (r, st) \<Rightarrow> (case r of Inl err \<Rightarrow> Some err | Inr event_uris \<Rightarrow> None, trace st))
     = (Some ValueError, [])
   \<and> posted (trace (snd (main sample_env sample_config [events_file])))
     = [''http://a/users/u/login?password=p'', ''http://a/repositories/2/archival_objects'']
   \<and> outputs (snd (main sample_env sample_config [events_file]))
        ''/m/aspace_spreadsheets_all_repos/outputs/create_5_out.csv'' = [Header]
   \<and> logged (trace (snd (main sample_env sample_config [events_file]))) = [ValueError]
   \<and> file_results (snd (main sample_env sample_config [events_file])) = []
   \<and> notified (snd (main sample_env sample_config [events_file])) = Some False"
  by code_simp

end
